theory Spec2Isabelle
  imports Complex_Main "HOL-Library.Word" "HOL-Library.Signed_Division"
begin

unbundle bit_operations_syntax


section \<open>Machine integers, time and the collaborators of the statistics engine\<close>

text \<open>
  The engine is Go code over fixed-width integers. \<open>uint8\<close> .. \<open>uint64\<close> are words of
  that width; \<open>int\<close>, \<open>int64\<close> and \<open>time.Duration\<close> are 64-bit words read as two's
  complement (\<open>sint\<close>, \<open><s\<close>, \<open>\<le>s\<close>), so every \<open>+\<close>, \<open>-\<close> and \<open>*\<close> wraps as in Go and a
  conversion between \<open>uint64\<close> and \<open>int64\<close> is the identity on the bits.
\<close>

type_synonym u8 = "8 word"
type_synonym u16 = "16 word"
type_synonym u32 = "32 word"
type_synonym u64 = "64 word"
type_synonym i64 = "64 word"

text \<open>Go's \<open>/\<close> on \<open>int64\<close> truncates towards zero.\<close>

definition sdiv64 :: "i64 \<Rightarrow> i64 \<Rightarrow> i64" where
  "sdiv64 a b = word_of_int (sint a sdiv sint b)"

text \<open>
  A \<open>time.Time\<close> is an instant, counted in nanoseconds from Go's zero time, so that
  \<open>IsZero\<close> is equality with 0. \<open>Sub\<close> saturates at the ends of \<open>time.Duration\<close>, as the
  standard library documents; \<open>time.Unix(0, ns)\<close> is the instant \<open>ns\<close> nanoseconds after
  the Unix epoch. A call of \<open>time.Now()\<close> or \<open>time.Since\<close> reads the wall clock: the
  functions below take a parameter \<open>clk\<close>, and \<open>clk l\<close> is the instant the clock shows at
  source line \<open>l\<close> of the call.
\<close>

type_synonym Time = int

definition Time_IsZero :: "Time \<Rightarrow> bool" where
  "Time_IsZero t = (t = 0)"

definition Time_Sub :: "Time \<Rightarrow> Time \<Rightarrow> i64" where
  "Time_Sub t u =
     (let d = t - u in
      if d > 9223372036854775807 then word_of_int 9223372036854775807
      else if d < - 9223372036854775808 then word_of_int (- 9223372036854775808)
      else word_of_int d)"

definition Time_Add :: "Time \<Rightarrow> i64 \<Rightarrow> Time" where
  "Time_Add t d = t + sint d"

definition Time_Unix :: "i64 \<Rightarrow> Time" where
  "Time_Unix ns = 62135596800 * 1000000000 + sint ns"

subsection \<open>WrapAround\<close>

text \<open>
  \<open>utils.WrapAround\<close> (the extender of 16-bit sequence numbers and 32-bit timestamps)
  is not among the source files. Its state is a type variable and its methods are the
  fields of a record of functions that the operations below take as a parameter, so
  every theorem holds for whatever the extender does. Of the update result, the fields
  the engine reads are kept.
\<close>

record WrapAroundUpdateResult =
  IsUnhandled :: bool
  PreExtendedHighest :: u64
  ExtendedVal :: u64

record ('n, 'w) WrapAround_methods =
  wa_Update :: "'w \<Rightarrow> 'n \<Rightarrow> WrapAroundUpdateResult \<times> 'w"
  wa_Rollover :: "'w \<Rightarrow> 'n \<Rightarrow> i64 \<Rightarrow> WrapAroundUpdateResult \<times> 'w"
  wa_UndoUpdate :: "'w \<Rightarrow> WrapAroundUpdateResult \<Rightarrow> 'w"
  wa_GetHighest :: "'w \<Rightarrow> 'n"
  wa_GetExtendedStart :: "'w \<Rightarrow> u64"
  wa_GetExtendedHighest :: "'w \<Rightarrow> u64"

subsection \<open>Bitmap history\<close>

definition cHistorySize :: nat where
  "cHistorySize = 8192"

text \<open>
  Modelled from the spec: \<open>protoutils.Bitmap\<close>, which is not among the source files.
  The spec (4.2) describes a fixed-capacity bit array indexed modulo its size, with
  \<open>set(i)\<close>, \<open>isSet(i)\<close> and \<open>clearRange(lo_inclusive, hi_inclusive)\<close>. The bitmap is the
  function from a slot to its bit; \<open>ClearRange lo hi\<close> clears the slot of every \<open>e\<close>
  with \<open>lo \<le> e \<le> hi\<close> (none when \<open>hi < lo\<close>).
\<close>

type_synonym Bitmap = "nat \<Rightarrow> bool"

definition Bitmap_slot :: "u64 \<Rightarrow> nat" where
  "Bitmap_slot e = unat e mod cHistorySize"

definition Bitmap_IsSet :: "Bitmap \<Rightarrow> u64 \<Rightarrow> bool" where
  "Bitmap_IsSet b e = b (Bitmap_slot e)"

definition Bitmap_Set :: "Bitmap \<Rightarrow> u64 \<Rightarrow> Bitmap" where
  "Bitmap_Set b e = b(Bitmap_slot e := True)"

definition Bitmap_inRange :: "u64 \<Rightarrow> u64 \<Rightarrow> nat \<Rightarrow> bool" where
  "Bitmap_inRange lo hi i =
     (lo \<le> hi \<and> i < cHistorySize \<and>
      (cHistorySize \<le> unat (hi - lo) + 1 \<or>
       (i + cHistorySize - Bitmap_slot lo) mod cHistorySize \<le> unat (hi - lo)))"

definition Bitmap_ClearRange :: "Bitmap \<Rightarrow> u64 \<Rightarrow> u64 \<Rightarrow> Bitmap" where
  "Bitmap_ClearRange b lo hi = (\<lambda>i. if Bitmap_inRange lo hi i then False else b i)"

subsection \<open>The shared base\<close>

text \<open>
  \<open>rtpStatsBase\<close> is embedded in both statistics objects; its file is not among the
  sources. The records below hold the fields that the receiver and the sender read or
  write. Of a \<open>snapshot\<close> these are \<open>extStartSN\<close>, \<open>packetsLost\<close> and \<open>maxRtt\<close>. What
  only the methods of the base touch (the gap histogram, the jitter estimator with its
  maxima, the first-packet-time adjuster) is the field \<open>aux\<close> of an arbitrary type, and
  the methods and constants of the base are the fields of \<open>rtpStatsBase_methods\<close>: a
  method reads the whole object and returns what it writes.
\<close>

record RTCPSenderReportData =
  NTPTimestamp :: u64
  RTPTimestamp :: u32
  RTPTimestampExt :: u64
  At :: Time
  AtAdjusted :: Time
  Packets :: u32
  Octets :: u32

record snapshot =
  snap_extStartSN :: u64
  snap_packetsLost :: u64
  snap_maxRtt :: u32

record 'x rtpStatsBase =
  clockRate :: u32
  endTime :: Time
  initialized :: bool
  startTime :: Time
  firstTime :: i64
  highestTime :: i64
  packetsLost :: u64
  bytes :: u64
  headerBytes :: u64
  packetsPadding :: u64
  bytesPadding :: u64
  headerBytesPadding :: u64
  packetsDuplicate :: u64
  bytesDuplicate :: u64
  headerBytesDuplicate :: u64
  packetsOutOfOrder :: u64
  frames :: u32
  rtt :: u32
  maxRtt :: u32
  nextSnapshotID :: u32
  snapshots :: "snapshot list"
  srFirst :: "RTCPSenderReportData option"
  srNewest :: "RTCPSenderReportData option"
  aux :: 'x

record ('r, 'x) rtpStatsBase_methods =
  cFirstSnapshotID :: u32
  cNumSequenceNumbers :: u64
  cSequenceNumberLargeJumpThreshold :: i64
  initSnapshot :: "'r \<Rightarrow> Time \<Rightarrow> u64 \<Rightarrow> snapshot"
  updateGapHistogram :: "'r \<Rightarrow> i64 \<Rightarrow> 'x"
  updateJitter :: "'r \<Rightarrow> u64 \<Rightarrow> i64 \<Rightarrow> real \<times> 'x"
  getJitter :: "'r \<Rightarrow> real"
  getAndResetSnapshot :: "'r \<Rightarrow> Time \<Rightarrow> u32 \<Rightarrow> u64 \<Rightarrow> u64 \<Rightarrow> ((snapshot \<times> snapshot) option \<times> snapshot list) option"
  maybeAdjustFirstPacketTime :: "'r \<Rightarrow> RTCPSenderReportData \<Rightarrow> u64 \<Rightarrow> u64 \<Rightarrow> i64 \<times> 'x"
  getTotalPacketsPrimary :: "'r \<Rightarrow> u64 \<Rightarrow> u64 \<Rightarrow> u64"

section \<open>The receiver\<close>

record RTPFlowState =
  IsNotHandled :: bool
  HasLoss :: bool
  LossStartInclusive :: u64
  LossEndExclusive :: u64
  IsDuplicate :: bool
  IsOutOfOrder :: bool
  ExtSequenceNumber :: u64
  ExtTimestamp :: u64

record ('x, 'sn, 'ts) RTPStatsReceiver = "'x rtpStatsBase" +
  sequenceNumber :: 'sn
  tsRolloverThreshold :: i64
  timestamp :: 'ts
  history :: Bitmap
  propagationDelay :: i64
  longTermDeltaPropagationDelay :: i64
  propagationDelayDeltaHighCount :: i64
  propagationDelayDeltaHighStartTime :: Time
  propagationDelaySpike :: i64
  clockSkewCount :: i64
  clockSkewMediaPathCount :: i64
  outOfOrderSenderReportCount :: i64
  largeJumpCount :: i64
  largeJumpNegativeCount :: i64
  timeReversedCount :: i64

text \<open>The zero value of \<open>RTPFlowState\<close>, which \<open>Update\<close> starts from.\<close>

definition flowState0 :: RTPFlowState where
  "flowState0 =
     \<lparr>IsNotHandled = False, HasLoss = False, LossStartInclusive = 0, LossEndExclusive = 0,
      IsDuplicate = False, IsOutOfOrder = False, ExtSequenceNumber = 0, ExtTimestamp = 0\<rparr>"

definition notHandled :: RTPFlowState where
  "notHandled = flowState0\<lparr>IsNotHandled := True\<rparr>"

definition getTSRolloverCount ::
  "(u32, 'ts) WrapAround_methods \<Rightarrow> ('x, 'sn, 'ts) RTPStatsReceiver \<Rightarrow> i64 \<Rightarrow> u32 \<Rightarrow> i64" where
  "getTSRolloverCount TS r diffNano ts =
     (if diffNano <s tsRolloverThreshold r then - 1
      else
        let excess = sdiv64 ((diffNano - tsRolloverThreshold r * 2) * ucast (clockRate r)) 1000000000;
            roc = sdiv64 excess 4294967296;
            roc = (if roc <s 0 then 0 else roc);
            roc = (if wa_GetHighest TS (timestamp r) > ts then roc + 1 else roc)
        in roc)"

definition isInRange :: "u64 \<Rightarrow> u64 \<Rightarrow> bool" where
  "isInRange esn ehsn =
     (let diff = ehsn - esn in 0 \<le>s diff \<and> diff <s word_of_nat cHistorySize)"


subsection \<open>Update\<close>

text \<open>
  \<open>Update\<close> is translated in the order of its source (rtpstats_receiver.go, lines
  157-376) and cut at its phases: the extension of the sequence number and timestamp
  with the cross-check of their directions (lines 199-282), the out-of-order and the
  in-order classification (lines 286-313 and 314-355) and the byte accounting (lines
  359-374). The result \<open>None\<close> is Go's run-time panic on an index out of range, which
  the loop over the snapshots raises when the slice is shorter than the number of
  allocated snapshot ids. Logging is left out: it changes no state.
\<close>

primrec Receiver_initSnapshots ::
  "(('x, 'sn, 'ts) RTPStatsReceiver, 'x) rtpStatsBase_methods \<Rightarrow> (u16, 'sn) WrapAround_methods \<Rightarrow>
   nat \<Rightarrow> nat \<Rightarrow> ('x, 'sn, 'ts) RTPStatsReceiver \<Rightarrow> ('x, 'sn, 'ts) RTPStatsReceiver option" where
  "Receiver_initSnapshots B SN 0 i r = Some r"
| "Receiver_initSnapshots B SN (Suc k) i r =
     (if i < length (snapshots r)
      then Receiver_initSnapshots B SN k (Suc i)
             (r\<lparr>snapshots := (snapshots r)
                  [i := initSnapshot B r (startTime r) (wa_GetExtendedStart SN (sequenceNumber r))]\<rparr>)
      else None)"

definition Receiver_Update_extend ::
  "(u16, 'sn) WrapAround_methods \<Rightarrow> (u32, 'ts) WrapAround_methods \<Rightarrow>
   (('x, 'sn, 'ts) RTPStatsReceiver, 'x) rtpStatsBase_methods \<Rightarrow> (nat \<Rightarrow> Time) \<Rightarrow>
   ('x, 'sn, 'ts) RTPStatsReceiver \<Rightarrow> i64 \<Rightarrow> u16 \<Rightarrow> u32 \<Rightarrow> i64 \<Rightarrow>
   (('x, 'sn, 'ts) RTPStatsReceiver +
    WrapAroundUpdateResult \<times> WrapAroundUpdateResult \<times> ('x, 'sn, 'ts) RTPStatsReceiver) option" where
  "Receiver_Update_extend SN TS B clk r packetTime sn ts payloadSize =
     (if \<not> initialized r then
        (if payloadSize = 0 then Some (Inl r)
         else
           let r1 = r\<lparr>initialized := True, startTime := clk 208,
                      firstTime := packetTime, highestTime := packetTime\<rparr>;
               (resSN, sn') = wa_Update SN (sequenceNumber r1) sn;
               r2 = r1\<lparr>sequenceNumber := sn'\<rparr>;
               (resTS, ts') = wa_Update TS (timestamp r2) ts;
               r3 = r2\<lparr>timestamp := ts'\<rparr>
           in case Receiver_initSnapshots B SN (unat (nextSnapshotID r3 - cFirstSnapshotID B)) 0 r3 of
                None \<Rightarrow> None
              | Some r4 \<Rightarrow> Some (Inr (resSN, resTS, r4)))
      else
        let (resSN, sn') = wa_Update SN (sequenceNumber r) sn;
            r1 = r\<lparr>sequenceNumber := sn'\<rparr>
        in if IsUnhandled resSN then Some (Inl r1)
           else
             let gapSN = ExtendedVal resSN - PreExtendedHighest resSN;
                 timeSinceHighest = packetTime - highestTime r1;
                 tsRolloverCount = getTSRolloverCount TS r1 timeSinceHighest ts;
                 (resTS, ts') = wa_Rollover TS (timestamp r1) ts tsRolloverCount;
                 r2 = r1\<lparr>timestamp := ts'\<rparr>
             in if IsUnhandled resTS then Some (Inl r2)
                else
                  let gapTS = ExtendedVal resTS - PreExtendedHighest resTS
                  in if gapTS <s 0 \<and> 0 <s gapSN
                     then Some (Inl (r2\<lparr>sequenceNumber := wa_UndoUpdate SN (sequenceNumber r2) resSN\<rparr>))
                     else if gapSN <s 0 \<and> 0 <s gapTS \<and> 0 <s payloadSize then
                       (if 0 \<le>s tsRolloverCount then
                          let (resSN', sn'') = wa_Rollover SN (sequenceNumber r2) sn 1;
                              r3 = r2\<lparr>sequenceNumber := sn''\<rparr>
                          in if IsUnhandled resSN' then Some (Inl r3)
                             else Some (Inr (resSN', resTS, r3))
                        else Some (Inr (resSN, resTS, r2)))
                     else Some (Inr (resSN, resTS, r2)))"

definition Receiver_Update_outOfOrder ::
  "(('x, 'sn, 'ts) RTPStatsReceiver, 'x) rtpStatsBase_methods \<Rightarrow> ('x, 'sn, 'ts) RTPStatsReceiver \<Rightarrow>
   WrapAroundUpdateResult \<Rightarrow> i64 \<Rightarrow> i64 \<Rightarrow> u64 \<Rightarrow> RTPFlowState \<times> ('x, 'sn, 'ts) RTPStatsReceiver" where
  "Receiver_Update_outOfOrder B r resSN gapSN hdrSize pktSize =
     (let r1 = (if gapSN \<noteq> 0 then r\<lparr>packetsOutOfOrder := packetsOutOfOrder r + 1\<rparr> else r);
          (fs, r2) =
            (if isInRange (ExtendedVal resSN) (PreExtendedHighest resSN) then
               (if Bitmap_IsSet (history r1) (ExtendedVal resSN) then
                  (flowState0\<lparr>IsDuplicate := True\<rparr>,
                   r1\<lparr>bytesDuplicate := bytesDuplicate r1 + pktSize,
                      headerBytesDuplicate := headerBytesDuplicate r1 + hdrSize,
                      packetsDuplicate := packetsDuplicate r1 + 1\<rparr>)
                else
                  (flowState0,
                   r1\<lparr>packetsLost := packetsLost r1 - 1,
                      history := Bitmap_Set (history r1) (ExtendedVal resSN)\<rparr>))
             else (flowState0, r1));
          fs = fs\<lparr>IsOutOfOrder := True\<rparr>;
          r3 = (if \<not> IsDuplicate fs \<and> cSequenceNumberLargeJumpThreshold B \<le>s - gapSN
                then r2\<lparr>largeJumpNegativeCount := largeJumpNegativeCount r2 + 1\<rparr> else r2)
      in (fs, r3))"

definition Receiver_Update_inOrder ::
  "(('x, 'sn, 'ts) RTPStatsReceiver, 'x) rtpStatsBase_methods \<Rightarrow> ('x, 'sn, 'ts) RTPStatsReceiver \<Rightarrow>
   WrapAroundUpdateResult \<Rightarrow> WrapAroundUpdateResult \<Rightarrow> i64 \<Rightarrow> i64 \<Rightarrow> u32 \<Rightarrow>
   RTPFlowState \<times> ('x, 'sn, 'ts) RTPStatsReceiver" where
  "Receiver_Update_inOrder B r resSN resTS gapSN packetTime ts =
     (let r1 = (if cSequenceNumberLargeJumpThreshold B \<le>s gapSN
                then r\<lparr>largeJumpCount := largeJumpCount r + 1\<rparr> else r);
          r2 = (if ExtendedVal resTS < PreExtendedHighest resTS
                then r1\<lparr>timeReversedCount := timeReversedCount r1 + 1\<rparr> else r1);
          r3 = r2\<lparr>aux := updateGapHistogram B r2 gapSN\<rparr>;
          r4 = r3\<lparr>history := Bitmap_ClearRange (history r3)
                             (PreExtendedHighest resSN + 1) (ExtendedVal resSN - 1)\<rparr>;
          r5 = r4\<lparr>packetsLost := packetsLost r4 + (gapSN - 1)\<rparr>;
          r6 = r5\<lparr>history := Bitmap_Set (history r5) (ExtendedVal resSN)\<rparr>;
          r7 = (if ts \<noteq> ucast (PreExtendedHighest resTS) then r6\<lparr>highestTime := packetTime\<rparr> else r6);
          fs = (if 1 <s gapSN
                then flowState0\<lparr>HasLoss := True,
                                 LossStartInclusive := PreExtendedHighest resSN + 1,
                                 LossEndExclusive := ExtendedVal resSN\<rparr>
                else flowState0)
      in (fs, r7))"

definition Receiver_Update_account ::
  "(('x, 'sn, 'ts) RTPStatsReceiver, 'x) rtpStatsBase_methods \<Rightarrow> ('x, 'sn, 'ts) RTPStatsReceiver \<Rightarrow>
   RTPFlowState \<Rightarrow> WrapAroundUpdateResult \<Rightarrow> i64 \<Rightarrow> bool \<Rightarrow> i64 \<Rightarrow> i64 \<Rightarrow> u64 \<Rightarrow>
   ('x, 'sn, 'ts) RTPStatsReceiver" where
  "Receiver_Update_account B r fs resTS packetTime marker hdrSize payloadSize pktSize =
     (if \<not> IsDuplicate fs then
        (if payloadSize = 0 then
           r\<lparr>packetsPadding := packetsPadding r + 1,
             bytesPadding := bytesPadding r + pktSize,
             headerBytesPadding := headerBytesPadding r + hdrSize\<rparr>
         else
           let r1 = r\<lparr>bytes := bytes r + pktSize, headerBytes := headerBytes r + hdrSize\<rparr>;
               r2 = (if marker then r1\<lparr>frames := frames r1 + 1\<rparr> else r1)
           in r2\<lparr>aux := snd (updateJitter B r2 (ExtendedVal resTS) packetTime)\<rparr>)
      else r)"

definition RTPStatsReceiver_Update ::
  "(u16, 'sn) WrapAround_methods \<Rightarrow> (u32, 'ts) WrapAround_methods \<Rightarrow>
   (('x, 'sn, 'ts) RTPStatsReceiver, 'x) rtpStatsBase_methods \<Rightarrow> (nat \<Rightarrow> Time) \<Rightarrow>
   ('x, 'sn, 'ts) RTPStatsReceiver \<Rightarrow> i64 \<Rightarrow> u16 \<Rightarrow> u32 \<Rightarrow> bool \<Rightarrow> i64 \<Rightarrow> i64 \<Rightarrow> i64 \<Rightarrow>
   (RTPFlowState \<times> ('x, 'sn, 'ts) RTPStatsReceiver) option" where
  "RTPStatsReceiver_Update SN TS B clk r packetTime sn ts marker hdrSize payloadSize paddingSize =
     (if \<not> Time_IsZero (endTime r) then Some (notHandled, r)
      else
        case Receiver_Update_extend SN TS B clk r packetTime sn ts payloadSize of
          None \<Rightarrow> None
        | Some (Inl r1) \<Rightarrow> Some (notHandled, r1)
        | Some (Inr (resSN, resTS, r1)) \<Rightarrow>
            let gapSN = ExtendedVal resSN - PreExtendedHighest resSN;
                pktSize = hdrSize + payloadSize + paddingSize;
                (fs, r2) =
                  (if gapSN \<le>s 0 then Receiver_Update_outOfOrder B r1 resSN gapSN hdrSize pktSize
                   else Receiver_Update_inOrder B r1 resSN resTS gapSN packetTime ts);
                fs = fs\<lparr>ExtSequenceNumber := ExtendedVal resSN, ExtTimestamp := ExtendedVal resTS\<rparr>
            in Some (fs, Receiver_Update_account B r2 fs resTS packetTime marker hdrSize payloadSize pktSize))"

subsection \<open>Floating point\<close>

text \<open>
  The engine computes a few quantities in \<open>float32\<close> and \<open>float64\<close>. Where such a
  computation only decides a diagnostic counter or a derived field of a report it is
  carried out in the real numbers. A conversion of a floating-point number to an
  integer type truncates towards zero; when the truncated number is outside the type
  the Go specification leaves the result to the implementation, and the model keeps
  its low bits, which is what the conversion through a 64-bit integer of the gc
  compiler yields for a number within the range of \<open>int64\<close>.
\<close>

definition trunc :: "real \<Rightarrow> int" where
  "trunc x = (if 0 \<le> x then \<lfloor>x\<rfloor> else \<lceil>x\<rceil>)"

definition float_to_word :: "real \<Rightarrow> 'a::len word" where
  "float_to_word x = word_of_int (trunc x)"

definition Duration_Seconds :: "i64 \<Rightarrow> real" where
  "Duration_Seconds d = real_of_int (sint d) / 1000000000"

text \<open>
  The clock-skew test of both report paths: the window is longer than 0.2 s and the
  clock rate measured over it is off the negotiated one by more than 20 percent.
\<close>

definition clockSkewed :: "u32 \<Rightarrow> u64 \<Rightarrow> i64 \<Rightarrow> bool" where
  "clockSkewed rate rtpDiff since =
     (Duration_Seconds since > 0.2 \<and>
      \<bar>real (unat rate) - real (unat rtpDiff) / Duration_Seconds since\<bar> > 0.2 * real (unat rate))"

subsection \<open>RTCP packets\<close>

text \<open>\<open>rtcp.ReceptionReport\<close> of the RTCP codec, with the fields the spec (6) lists.\<close>

record ReceptionReport =
  SSRC :: u32
  FractionLost :: u8
  TotalLost :: u32
  LastSequenceNumber :: u32
  Jitter :: u32
  LastSenderReport :: u32
  Delay :: u32

text \<open>\<open>rtcp.SenderReport\<close>; its fields carry the prefix \<open>sr_\<close>.\<close>

record SenderReport =
  sr_SSRC :: u32
  sr_NTPTime :: u64
  sr_RTPTime :: u32
  sr_PacketCount :: u32
  sr_OctetCount :: u32


subsection \<open>Sender reports arriving at the receiver\<close>

text \<open>
  \<open>SetRtcpSenderReportData\<close> and the functions it calls (rtpstats_receiver.go, lines
  378-632). \<open>ntpTime\<close> is \<open>NtpTime.Time\<close> of \<open>mediatransportutil\<close>. In
  \<open>getExtendedSenderReport\<close> the slack \<open>uint64(cReportSlack * float64(ClockRate))\<close> is
  \<open>60 * ClockRate\<close>: the product of 60 and a 32-bit number is exact in \<open>float64\<close>.
\<close>

definition getExtendedSenderReport ::
  "(u64 \<Rightarrow> Time) \<Rightarrow> ('x, 'sn, 'ts) RTPStatsReceiver \<Rightarrow> RTCPSenderReportData \<Rightarrow> RTCPSenderReportData" where
  "getExtendedSenderReport ntpTime r srData =
     (let tsCycles =
            (case srNewest r of
               None \<Rightarrow> 0
             | Some n \<Rightarrow>
                 let timeSinceLastReport = Time_Sub (ntpTime (NTPTimestamp srData)) (ntpTime (NTPTimestamp n));
                     expectedRTPTimestampExt =
                       RTPTimestampExt n + sdiv64 (timeSinceLastReport * ucast (clockRate r)) 1000000000;
                     lbound = expectedRTPTimestampExt - 60 * ucast (clockRate r);
                     ubound = expectedRTPTimestampExt + 60 * ucast (clockRate r);
                     inRange = (RTPTimestamp srData - ucast lbound < 2147483648 \<and>
                                ucast ubound - RTPTimestamp srData < 2147483648)
                 in if inRange then
                      (let lbTSCycles = lbound AND 0xFFFFFFFF00000000;
                           ubTSCycles = ubound AND 0xFFFFFFFF00000000
                       in if lbTSCycles = ubTSCycles then lbTSCycles
                          else if RTPTimestamp srData < 2147483648 then ubTSCycles
                          else lbTSCycles)
                    else
                      (let c = RTPTimestampExt n AND 0xFFFFFFFF00000000;
                           c = (if RTPTimestamp srData - RTPTimestamp n < 2147483648 \<and>
                                   RTPTimestamp srData < RTPTimestamp n
                                then c + 4294967296 else c)
                       in if c \<ge> 4294967296 \<and>
                             RTPTimestamp srData - RTPTimestamp n \<ge> 2147483648 \<and>
                             RTPTimestamp srData > RTPTimestamp n
                          then c - 4294967296 else c))
      in srData\<lparr>RTPTimestampExt := ucast (RTPTimestamp srData) + tsCycles\<rparr>)"

definition checkOutOfOrderSenderReport ::
  "('x, 'sn, 'ts) RTPStatsReceiver \<Rightarrow> RTCPSenderReportData \<Rightarrow> bool \<times> ('x, 'sn, 'ts) RTPStatsReceiver" where
  "checkOutOfOrderSenderReport r srData =
     (case srNewest r of
        None \<Rightarrow> (False, r)
      | Some n \<Rightarrow>
          if RTPTimestampExt srData < RTPTimestampExt n
          then (True, r\<lparr>outOfOrderSenderReportCount := outOfOrderSenderReportCount r + 1\<rparr>)
          else (False, r))"

text \<open>\<open>None\<close>: the dereference of \<open>srFirst\<close> panics when it is \<open>nil\<close>.\<close>

definition checkRTPClockSkewForSenderReport ::
  "(u64 \<Rightarrow> Time) \<Rightarrow> ('x, 'sn, 'ts) RTPStatsReceiver \<Rightarrow> RTCPSenderReportData \<Rightarrow>
   ('x, 'sn, 'ts) RTPStatsReceiver option" where
  "checkRTPClockSkewForSenderReport ntpTime r srData =
     (case srNewest r of
        None \<Rightarrow> Some r
      | Some n \<Rightarrow>
          (case srFirst r of
             None \<Rightarrow> None
           | Some f \<Rightarrow>
               if clockSkewed (clockRate r) (RTPTimestampExt srData - RTPTimestampExt n)
                    (Time_Sub (ntpTime (NTPTimestamp srData)) (ntpTime (NTPTimestamp n))) \<or>
                  clockSkewed (clockRate r) (RTPTimestampExt srData - RTPTimestampExt f)
                    (Time_Sub (ntpTime (NTPTimestamp srData)) (ntpTime (NTPTimestamp f)))
               then Some (r\<lparr>clockSkewCount := clockSkewCount r + 1\<rparr>)
               else Some r))"

definition checkRTPClockSkewAgainstMediaPathForSenderReport ::
  "(u32, 'ts) WrapAround_methods \<Rightarrow> (nat \<Rightarrow> Time) \<Rightarrow> ('x, 'sn, 'ts) RTPStatsReceiver \<Rightarrow>
   RTCPSenderReportData \<Rightarrow> ('x, 'sn, 'ts) RTPStatsReceiver" where
  "checkRTPClockSkewAgainstMediaPathForSenderReport TS clk r srData =
     (if highestTime r = 0 then r
      else
        let timeSinceSR = Time_Sub (clk 481) (AtAdjusted srData);
            extNowTSSR = RTPTimestampExt srData + sdiv64 (timeSinceSR * ucast (clockRate r)) 1000000000;
            timeSinceHighest = Time_Sub (clk 484) (Time_Unix (highestTime r));
            extNowTSHighest = wa_GetExtendedHighest TS (timestamp r) +
                              sdiv64 (timeSinceHighest * ucast (clockRate r)) 1000000000;
            diffHighest = extNowTSSR - extNowTSHighest;
            timeSinceFirst = Time_Sub (clk 488) (Time_Unix (firstTime r));
            extNowTSFirst = wa_GetExtendedStart TS (timestamp r) +
                            sdiv64 (timeSinceFirst * ucast (clockRate r)) 1000000000;
            diffFirst = extNowTSSR - extNowTSFirst
        in if (float_to_word \<bar>real_of_int (sint diffHighest)\<bar> :: u32) > 5 * clockRate r \<or>
              (float_to_word \<bar>real_of_int (sint diffFirst)\<bar> :: u32) > 5 * clockRate r
           then r\<lparr>clockSkewMediaPathCount := clockSkewMediaPathCount r + 1\<rparr>
           else r)"

text \<open>
  The propagation delay (lines 514-598). The durations are 64-bit integers; the three
  adaptations multiply a difference of durations by a floating-point factor and convert
  the product back (\<open>time.Duration(factor * float64(d))\<close>). This operation is the
  parameter \<open>scale\<close>, so that what is proved does not depend on the rounding of
  \<open>float64\<close>; \<open>scaleDuration\<close> is the instance without rounding error.
  \<open>resetDelta\<close> and \<open>initPropagationDelay\<close> are the closures of the source. The clock is
  read when the start of a run of high deltas is recorded (line 555) and when its age is
  tested (line 563). \<open>None\<close>: the dereference of \<open>srNewest\<close> (line 586) panics when it is
  \<open>nil\<close>.
\<close>

definition cPropagationDelayFallFactor :: real where
  "cPropagationDelayFallFactor = 0.9"

definition cPropagationDelayRiseFactor :: real where
  "cPropagationDelayRiseFactor = 0.1"

definition cPropagationDelaySpikeAdaptationFactor :: real where
  "cPropagationDelaySpikeAdaptationFactor = 0.5"

definition cPropagationDelayDeltaThresholdMin :: i64 where
  "cPropagationDelayDeltaThresholdMin = 10 * 1000000"

definition cPropagationDelayDeltaThresholdMaxFactor :: i64 where
  "cPropagationDelayDeltaThresholdMaxFactor = 2"

definition cPropagationDelayDeltaHighResetNumReports :: i64 where
  "cPropagationDelayDeltaHighResetNumReports = 2"

definition cPropagationDelayDeltaHighResetWait :: i64 where
  "cPropagationDelayDeltaHighResetWait = 10 * 1000000000"

definition cPropagationDelayDeltaLongTermAdaptationThreshold :: i64 where
  "cPropagationDelayDeltaLongTermAdaptationThreshold = 50 * 1000000"

definition scaleDuration :: "real \<Rightarrow> i64 \<Rightarrow> i64" where
  "scaleDuration f d = word_of_int (trunc (f * real_of_int (sint d)))"

definition resetDelta :: "('x, 'sn, 'ts) RTPStatsReceiver \<Rightarrow> ('x, 'sn, 'ts) RTPStatsReceiver" where
  "resetDelta r =
     r\<lparr>propagationDelayDeltaHighCount := 0, propagationDelayDeltaHighStartTime := 0,
       propagationDelaySpike := 0\<rparr>"

definition initPropagationDelay ::
  "('x, 'sn, 'ts) RTPStatsReceiver \<Rightarrow> i64 \<Rightarrow> ('x, 'sn, 'ts) RTPStatsReceiver" where
  "initPropagationDelay r pd =
     resetDelta (r\<lparr>propagationDelay := pd, longTermDeltaPropagationDelay := 0\<rparr>)"

text \<open>Lines 552-566: the branch taken on a sharp increase of the propagation delay.\<close>

definition sharpIncrease ::
  "(real \<Rightarrow> i64 \<Rightarrow> i64) \<Rightarrow> (nat \<Rightarrow> Time) \<Rightarrow> ('x, 'sn, 'ts) RTPStatsReceiver \<Rightarrow> i64 \<Rightarrow>
   ('x, 'sn, 'ts) RTPStatsReceiver" where
  "sharpIncrease scale clk r pd =
     (let r1 = r\<lparr>propagationDelayDeltaHighCount := propagationDelayDeltaHighCount r + 1\<rparr>;
          r2 = (if Time_IsZero (propagationDelayDeltaHighStartTime r1)
                then r1\<lparr>propagationDelayDeltaHighStartTime := clk 555\<rparr> else r1);
          r3 = (if propagationDelaySpike r2 = 0 then r2\<lparr>propagationDelaySpike := pd\<rparr>
                else r2\<lparr>propagationDelaySpike := propagationDelaySpike r2 +
                          scale cPropagationDelaySpikeAdaptationFactor (pd - propagationDelaySpike r2)\<rparr>)
      in if cPropagationDelayDeltaHighResetNumReports \<le>s propagationDelayDeltaHighCount r3 \<and>
            cPropagationDelayDeltaHighResetWait \<le>s
              Time_Sub (clk 563) (propagationDelayDeltaHighStartTime r3)
         then initPropagationDelay r3 (propagationDelaySpike r3)
         else r3)"

text \<open>Lines 580-593: the long-term estimate of the delta, for a report after the first.\<close>

definition adaptLongTerm ::
  "(u64 \<Rightarrow> Time) \<Rightarrow> (real \<Rightarrow> i64 \<Rightarrow> i64) \<Rightarrow> ('x, 'sn, 'ts) RTPStatsReceiver \<Rightarrow>
   RTCPSenderReportData \<Rightarrow> i64 \<Rightarrow> ('x, 'sn, 'ts) RTPStatsReceiver option" where
  "adaptLongTerm ntpTime scale r srData deltaPropagationDelay =
     (case (if deltaPropagationDelay <s cPropagationDelayDeltaLongTermAdaptationThreshold then
              (if longTermDeltaPropagationDelay r = 0
               then Some (r\<lparr>longTermDeltaPropagationDelay := deltaPropagationDelay\<rparr>)
               else
                 (case srNewest r of
                    None \<Rightarrow> None
                  | Some n \<Rightarrow>
                      let sinceLastReport = Time_Sub (ntpTime (NTPTimestamp srData)) (ntpTime (NTPTimestamp n));
                          adaptationFactor =
                            min 1 (real_of_int (sint sinceLastReport) /
                                   real_of_int (sint cPropagationDelayDeltaHighResetWait))
                      in Some (r\<lparr>longTermDeltaPropagationDelay :=
                                   longTermDeltaPropagationDelay r +
                                   scale adaptationFactor
                                     (deltaPropagationDelay - longTermDeltaPropagationDelay r)\<rparr>)))
            else Some r) of
        None \<Rightarrow> None
      | Some r1 \<Rightarrow>
          Some (if longTermDeltaPropagationDelay r1 <s 0
                then r1\<lparr>longTermDeltaPropagationDelay := 0\<rparr> else r1))"

definition updatePropagationDelayAndRecordSenderReport ::
  "(u64 \<Rightarrow> Time) \<Rightarrow> (real \<Rightarrow> i64 \<Rightarrow> i64) \<Rightarrow> (nat \<Rightarrow> Time) \<Rightarrow> ('x, 'sn, 'ts) RTPStatsReceiver \<Rightarrow>
   RTCPSenderReportData \<Rightarrow> ('x, 'sn, 'ts) RTPStatsReceiver option" where
  "updatePropagationDelayAndRecordSenderReport ntpTime scale clk r srData =
     (let pd = Time_Sub (At srData) (ntpTime (NTPTimestamp srData)) in
      case (if srFirst r = None then Some (initPropagationDelay r pd)
            else
              let deltaPropagationDelay = pd - propagationDelay r;
                  r1 =
                    (if cPropagationDelayDeltaThresholdMin <s deltaPropagationDelay then
                       (if longTermDeltaPropagationDelay r \<noteq> 0 \<and>
                           longTermDeltaPropagationDelay r * cPropagationDelayDeltaThresholdMaxFactor
                             <s deltaPropagationDelay
                        then sharpIncrease scale clk r pd
                        else resetDelta r)
                     else
                       (let r' = resetDelta r;
                            factor = (if propagationDelay r' <s pd then cPropagationDelayRiseFactor
                                      else cPropagationDelayFallFactor)
                        in r'\<lparr>propagationDelay := propagationDelay r' +
                                scale factor (pd - propagationDelay r')\<rparr>))
              in adaptLongTerm ntpTime scale r1 srData deltaPropagationDelay) of
        None \<Rightarrow> None
      | Some r2 \<Rightarrow>
          let sr = srData\<lparr>AtAdjusted := Time_Add (ntpTime (NTPTimestamp srData)) (propagationDelay r2)\<rparr>
          in Some (r2\<lparr>srFirst := (if srFirst r = None then Some sr else srFirst r2),
                      srNewest := Some sr\<rparr>))"

text \<open>
  For the statements about the propagation delay: the delay the report arrives with,
  the test of the source for a sharp increase (lines 549-551), and what the branch of
  a sharp increase computes before it decides to commit (lines 553-563).
\<close>

definition sharpIncreaseCondition :: "('x, 'sn, 'ts) RTPStatsReceiver \<Rightarrow> i64 \<Rightarrow> bool" where
  "sharpIncreaseCondition r pd =
     (cPropagationDelayDeltaThresholdMin <s pd - propagationDelay r \<and>
      longTermDeltaPropagationDelay r \<noteq> 0 \<and>
      longTermDeltaPropagationDelay r * cPropagationDelayDeltaThresholdMaxFactor <s pd - propagationDelay r)"

definition receivedPropagationDelay :: "(u64 \<Rightarrow> Time) \<Rightarrow> RTCPSenderReportData \<Rightarrow> i64" where
  "receivedPropagationDelay ntpTime srData = Time_Sub (At srData) (ntpTime (NTPTimestamp srData))"

definition spikeCount :: "('x, 'sn, 'ts) RTPStatsReceiver \<Rightarrow> i64" where
  "spikeCount r = propagationDelayDeltaHighCount r + 1"

definition spikeStart :: "(nat \<Rightarrow> Time) \<Rightarrow> ('x, 'sn, 'ts) RTPStatsReceiver \<Rightarrow> Time" where
  "spikeStart clk r =
     (if Time_IsZero (propagationDelayDeltaHighStartTime r) then clk 555
      else propagationDelayDeltaHighStartTime r)"

definition spikeValue :: "(real \<Rightarrow> i64 \<Rightarrow> i64) \<Rightarrow> ('x, 'sn, 'ts) RTPStatsReceiver \<Rightarrow> i64 \<Rightarrow> i64" where
  "spikeValue scale r pd =
     (if propagationDelaySpike r = 0 then pd
      else propagationDelaySpike r +
           scale cPropagationDelaySpikeAdaptationFactor (pd - propagationDelaySpike r))"

definition spikeCommitted :: "(nat \<Rightarrow> Time) \<Rightarrow> ('x, 'sn, 'ts) RTPStatsReceiver \<Rightarrow> bool" where
  "spikeCommitted clk r =
     (cPropagationDelayDeltaHighResetNumReports \<le>s spikeCount r \<and>
      cPropagationDelayDeltaHighResetWait \<le>s Time_Sub (clk 563) (spikeStart clk r))"

definition RTPStatsReceiver_SetRtcpSenderReportData ::
  "(u32, 'ts) WrapAround_methods \<Rightarrow> (('x, 'sn, 'ts) RTPStatsReceiver, 'x) rtpStatsBase_methods \<Rightarrow>
   (u64 \<Rightarrow> Time) \<Rightarrow> (real \<Rightarrow> i64 \<Rightarrow> i64) \<Rightarrow> (nat \<Rightarrow> Time) \<Rightarrow> ('x, 'sn, 'ts) RTPStatsReceiver \<Rightarrow>
   RTCPSenderReportData option \<Rightarrow> (bool \<times> ('x, 'sn, 'ts) RTPStatsReceiver) option" where
  "RTPStatsReceiver_SetRtcpSenderReportData TS B ntpTime scale clk r srDataP =
     (case srDataP of
        None \<Rightarrow> Some (False, r)
      | Some srData \<Rightarrow>
          if \<not> initialized r then Some (False, r)
          else if (case srNewest r of None \<Rightarrow> False | Some n \<Rightarrow> NTPTimestamp n > NTPTimestamp srData)
          then Some (False, r)
          else
            let srDataExt = getExtendedSenderReport ntpTime r srData;
                (ooo, r1) = checkOutOfOrderSenderReport r srDataExt
            in if ooo then Some (False, r1)
               else
                 case checkRTPClockSkewForSenderReport ntpTime r1 srDataExt of
                   None \<Rightarrow> None
                 | Some r2 \<Rightarrow>
                     (case updatePropagationDelayAndRecordSenderReport ntpTime scale clk r2 srDataExt of
                        None \<Rightarrow> None
                      | Some r3 \<Rightarrow>
                          (case srNewest r3 of
                             None \<Rightarrow> None
                           | Some newest \<Rightarrow>
                               let r4 = checkRTPClockSkewAgainstMediaPathForSenderReport TS clk r3 newest;
                                   (ft, a) = maybeAdjustFirstPacketTime B r4 newest 0
                                               (wa_GetExtendedStart TS (timestamp r4))
                               in Some (True, r4\<lparr>firstTime := ft, aux := a\<rparr>))))"

subsection \<open>Reception reports generated by the receiver\<close>

text \<open>
  \<open>GetRtcpReceptionReport\<close> (lines 657-714). \<open>getAndResetSnapshot\<close> of the base is a
  parameter: it returns the pair \<open>(then, now)\<close>, or nothing where the source gets \<open>nil\<close>,
  together with the slice of snapshots it leaves. \<open>fracLostOf\<close> is the computation of
  lines 680-688 from the two snapshots, the number of packets expected and the proxy's
  fraction; the quotient of the two \<open>float32\<close> values is taken in the reals.
\<close>

definition fracLostOf :: "snapshot \<Rightarrow> snapshot \<Rightarrow> u64 \<Rightarrow> u8 \<Rightarrow> u8" where
  "fracLostOf thn nw packetsExpected proxyFracLost =
     (let lost = (ucast (snap_packetsLost nw - snap_packetsLost thn) :: u32);
          lost = (if lost <s 0 then 0 else lost);
          lossRate = real (unat lost) / real (unat packetsExpected);
          fracLost = (float_to_word (lossRate * 256) :: u8)
      in if proxyFracLost > fracLost then proxyFracLost else fracLost)"

definition RTPStatsReceiver_GetRtcpReceptionReport ::
  "(u16, 'sn) WrapAround_methods \<Rightarrow> (('x, 'sn, 'ts) RTPStatsReceiver, 'x) rtpStatsBase_methods \<Rightarrow>
   (nat \<Rightarrow> Time) \<Rightarrow> ('x, 'sn, 'ts) RTPStatsReceiver \<Rightarrow> u32 \<Rightarrow> u8 \<Rightarrow> u32 \<Rightarrow>
   (ReceptionReport option \<times> ('x, 'sn, 'ts) RTPStatsReceiver) option" where
  "RTPStatsReceiver_GetRtcpReceptionReport SN B clk r ssrc proxyFracLost snapshotID =
     (let extHighestSN = wa_GetExtendedHighest SN (sequenceNumber r) in
      case getAndResetSnapshot B r (clk 662) snapshotID
             (wa_GetExtendedStart SN (sequenceNumber r)) extHighestSN of
        None \<Rightarrow> None
      | Some (None, sn) \<Rightarrow> Some (None, r\<lparr>snapshots := sn\<rparr>)
      | Some (Some (thn, nw), sn) \<Rightarrow>
          let r1 = r\<lparr>snapshots := sn\<rparr>;
              packetsExpected = snap_extStartSN nw - snap_extStartSN thn
          in if packetsExpected > cNumSequenceNumbers B then Some (None, r1)
             else if packetsExpected = 0 then Some (None, r1)
             else
               let fracLost = fracLostOf thn nw packetsExpected proxyFracLost;
                   totalLost = (if packetsLost r1 > 0xffffff then 0xffffff else packetsLost r1);
                   (lastSR, dlsr) =
                     (case srNewest r1 of
                        None \<Rightarrow> (0, 0)
                      | Some n \<Rightarrow>
                          (ucast (drop_bit 16 (NTPTimestamp n)),
                           if \<not> Time_IsZero (At n)
                           then ucast (sdiv64 (sdiv64 (Time_Sub (clk 700) (At n)) 1000 * 65536) 1000000)
                           else 0))
               in Some (Some \<lparr>SSRC = ssrc, FractionLost = fracLost, TotalLost = ucast totalLost,
                               LastSequenceNumber = ucast (snap_extStartSN nw),
                               Jitter = float_to_word (getJitter B r1),
                               LastSenderReport = lastSR, Delay = dlsr\<rparr>,
                         r1))"

text \<open>
  For the statement about \<open>FractionLost\<close>: the number of packets lost between the two
  snapshots, as lines 680-683 compute it.
\<close>

definition packetsLostDelta :: "snapshot \<Rightarrow> snapshot \<Rightarrow> u32" where
  "packetsLostDelta thn nw =
     (let lost = (ucast (snap_packetsLost nw - snap_packetsLost thn) :: u32)
      in if lost <s 0 then 0 else lost)"

section \<open>The sender\<close>

text \<open>
  The data of rtpstats_sender.go. A field whose name another record or a parameter of
  the functions already has carries a prefix: \<open>si_\<close> (\<open>snInfo\<close>), \<open>is_\<close>
  (\<open>intervalStats\<close>), \<open>ss_\<close> (\<open>senderSnapshot\<close>) and \<open>s_\<close> (the diagnostic counters
  of the sender that the receiver has too). A \<open>float64\<close> is a real number. The array
  \<open>snInfos\<close> of \<open>cSnInfoSize\<close> entries is the function from an index to its entry;
  every index the code computes is masked with \<open>cSnInfoMask\<close>.
\<close>

definition cSnInfoSize :: i64 where
  "cSnInfoSize = 4096"

definition cSnInfoMask :: u64 where
  "cSnInfoMask = 4096 - 1"

definition snInfoFlagMarker :: u8 where
  "snInfoFlagMarker = 1"

definition snInfoFlagPadding :: u8 where
  "snInfoFlagPadding = 2"

definition snInfoFlagOutOfOrder :: u8 where
  "snInfoFlagOutOfOrder = 4"

record snInfo =
  si_pktSize :: u16
  si_hdrSize :: u8
  si_flags :: u8

record intervalStats =
  is_packets :: u64
  is_bytes :: u64
  is_headerBytes :: u64
  is_packetsPadding :: u64
  is_bytesPadding :: u64
  is_headerBytesPadding :: u64
  is_packetsLost :: u64
  is_packetsOutOfOrder :: u64
  is_frames :: u32
  is_packetsNotFound :: u64

definition intervalStats0 :: intervalStats where
  "intervalStats0 =
     \<lparr>is_packets = 0, is_bytes = 0, is_headerBytes = 0, is_packetsPadding = 0,
      is_bytesPadding = 0, is_headerBytesPadding = 0, is_packetsLost = 0,
      is_packetsOutOfOrder = 0, is_frames = 0, is_packetsNotFound = 0\<rparr>"


record senderSnapshot =
  ss_isValid :: bool
  ss_startTime :: Time
  ss_extStartSN :: u64
  ss_bytes :: u64
  ss_headerBytes :: u64
  ss_packetsPadding :: u64
  ss_bytesPadding :: u64
  ss_headerBytesPadding :: u64
  ss_packetsDuplicate :: u64
  ss_bytesDuplicate :: u64
  ss_headerBytesDuplicate :: u64
  ss_packetsOutOfOrder :: u64
  ss_packetsLostFeed :: u64
  ss_packetsLost :: u64
  ss_frames :: u32
  ss_nacks :: u32
  ss_plis :: u32
  ss_firs :: u32
  ss_maxRtt :: u32
  ss_maxJitterFeed :: real
  ss_maxJitter :: real
  ss_extLastRRSN :: u64
  ss_intervalStats :: intervalStats

record 'x RTPStatsSender = "'x rtpStatsBase" +
  extStartSN :: u64
  extHighestSN :: u64
  extHighestSNFromRR :: u64
  lastRRTime :: Time
  lastRR :: ReceptionReport
  extStartTS :: u64
  extHighestTS :: u64
  packetsLostFromRR :: u64
  jitterFromRR :: real
  maxJitterFromRR :: real
  snInfos :: "nat \<Rightarrow> snInfo"
  nextSenderSnapshotID :: u32
  senderSnapshots :: "senderSnapshot list"
  s_clockSkewCount :: i64
  metadataCacheOverflowCount :: i64
  s_largeJumpNegativeCount :: i64
  s_largeJumpCount :: i64
  s_timeReversedCount :: i64

text \<open>
  \<open>for i := 0; i < n; i++ { s := &xs[i]; ... }\<close> with a body that rewrites \<open>xs[i]\<close>
  from \<open>xs[i]\<close> alone: the body is applied to the first \<open>n\<close> elements, and indexing
  past the end of the slice panics (\<open>None\<close>).
\<close>

definition forPrefix :: "nat \<Rightarrow> ('a \<Rightarrow> 'a) \<Rightarrow> 'a list \<Rightarrow> 'a list option" where
  "forPrefix n f xs = (if n \<le> length xs then Some (map f (take n xs) @ drop n xs) else None)"

definition initSenderSnapshot :: "Time \<Rightarrow> u64 \<Rightarrow> senderSnapshot" where
  "initSenderSnapshot t e =
     \<lparr>ss_isValid = True, ss_startTime = t, ss_extStartSN = e,
      ss_bytes = 0, ss_headerBytes = 0, ss_packetsPadding = 0, ss_bytesPadding = 0,
      ss_headerBytesPadding = 0, ss_packetsDuplicate = 0, ss_bytesDuplicate = 0,
      ss_headerBytesDuplicate = 0, ss_packetsOutOfOrder = 0, ss_packetsLostFeed = 0,
      ss_packetsLost = 0, ss_frames = 0, ss_nacks = 0, ss_plis = 0, ss_firs = 0,
      ss_maxRtt = 0, ss_maxJitterFeed = 0, ss_maxJitter = 0,
      ss_extLastRRSN = e - 1, ss_intervalStats = intervalStats0\<rparr>"

subsection \<open>The per-sequence-number metadata ring\<close>

text \<open>\<open>getSnInfoOutOfOrderSlot\<close> returns the slot as an \<open>int\<close>, or -1.\<close>

definition getSnInfoOutOfOrderSlot :: "u64 \<Rightarrow> u64 \<Rightarrow> i64" where
  "getSnInfoOutOfOrderSlot esn ehsn =
     (let offset = ehsn - esn in
      if cSnInfoSize \<le>s offset \<or> offset <s 0 then - 1 else esn AND cSnInfoMask)"

definition setSnInfo ::
  "'x RTPStatsSender \<Rightarrow> u64 \<Rightarrow> u64 \<Rightarrow> u16 \<Rightarrow> u8 \<Rightarrow> u16 \<Rightarrow> bool \<Rightarrow> bool \<Rightarrow> 'x RTPStatsSender" where
  "setSnInfo r esn ehsn pktSz hdrSz payloadSz marker isOutOfOrder =
     (let slot = (if esn - ehsn <s 0 then getSnInfoOutOfOrderSlot esn ehsn else esn AND cSnInfoMask)
      in if esn - ehsn <s 0 \<and> slot <s 0 then r
         else
           let f = 0;
               f = (if marker then f OR snInfoFlagMarker else f);
               f = (if payloadSz = 0 then f OR snInfoFlagPadding else f);
               f = (if isOutOfOrder then f OR snInfoFlagOutOfOrder else f)
           in r\<lparr>snInfos := (snInfos r)
                  (unat slot := \<lparr>si_pktSize = pktSz, si_hdrSize = hdrSz, si_flags = f\<rparr>)\<rparr>)"

text \<open>
  The loop of \<open>clearSnInfos\<close> runs \<open>esn\<close> from the start until it equals the end, with
  wrap-around: \<open>unat (end - start)\<close> iterations.
\<close>

primrec clearSnInfos_loop :: "nat \<Rightarrow> u64 \<Rightarrow> (nat \<Rightarrow> snInfo) \<Rightarrow> (nat \<Rightarrow> snInfo)" where
  "clearSnInfos_loop 0 esn infos = infos"
| "clearSnInfos_loop (Suc k) esn infos =
     clearSnInfos_loop k (esn + 1)
       (infos(unat (esn AND cSnInfoMask) := \<lparr>si_pktSize = 0, si_hdrSize = 0, si_flags = 0\<rparr>))"

definition clearSnInfos :: "'x RTPStatsSender \<Rightarrow> u64 \<Rightarrow> u64 \<Rightarrow> 'x RTPStatsSender" where
  "clearSnInfos r extStartInclusive extEndExclusive =
     (if extEndExclusive \<le> extStartInclusive then r
      else r\<lparr>snInfos := clearSnInfos_loop (unat (extEndExclusive - extStartInclusive))
                            extStartInclusive (snInfos r)\<rparr>)"

definition isSnInfoLost :: "'x RTPStatsSender \<Rightarrow> u64 \<Rightarrow> u64 \<Rightarrow> bool" where
  "isSnInfoLost r esn ehsn =
     (let slot = getSnInfoOutOfOrderSlot esn ehsn in
      if slot <s 0 then False else si_pktSize (snInfos r (unat slot)) = 0)"




subsection \<open>Update\<close>

text \<open>
  \<open>Update\<close> of the sender (rtpstats_sender.go, lines 236-437), cut at its phases: the
  initialisation on the first packet (lines 252-283), the out-of-order branch with the
  lowering of the start (lines 302-360), the in-order branch (lines 361-392), the
  timestamps (lines 394-413) and the byte accounting (lines 415-436). \<open>Inl\<close> is an early
  \<open>return\<close> with the state it leaves, \<open>None\<close> a panic on an index out of range.
\<close>

primrec Sender_initSnapshots ::
  "('x RTPStatsSender, 'x) rtpStatsBase_methods \<Rightarrow> nat \<Rightarrow> nat \<Rightarrow> 'x RTPStatsSender \<Rightarrow>
   'x RTPStatsSender option" where
  "Sender_initSnapshots B 0 i r = Some r"
| "Sender_initSnapshots B (Suc k) i r =
     (if i < length (snapshots r)
      then Sender_initSnapshots B k (Suc i)
             (r\<lparr>snapshots := (snapshots r)[i := initSnapshot B r (startTime r) (extStartSN r)]\<rparr>)
      else None)"

definition Sender_Update_init ::
  "('x RTPStatsSender, 'x) rtpStatsBase_methods \<Rightarrow> (nat \<Rightarrow> Time) \<Rightarrow> 'x RTPStatsSender \<Rightarrow>
   i64 \<Rightarrow> u64 \<Rightarrow> u64 \<Rightarrow> i64 \<Rightarrow> ('x RTPStatsSender + 'x RTPStatsSender) option" where
  "Sender_Update_init B clk r packetTime extSequenceNumber extTimestamp payloadSize =
     (if \<not> initialized r then
        (if payloadSize = 0 then Some (Inl r)
         else
           let r1 = r\<lparr>initialized := True, startTime := clk 260,
                      firstTime := packetTime, highestTime := packetTime,
                      extStartSN := extSequenceNumber, extHighestSN := extSequenceNumber - 1,
                      extStartTS := extTimestamp, extHighestTS := extTimestamp\<rparr>
           in case Sender_initSnapshots B (unat (nextSnapshotID r1 - cFirstSnapshotID B)) 0 r1 of
                None \<Rightarrow> None
              | Some r2 \<Rightarrow>
                  (case forPrefix (unat (nextSenderSnapshotID r2 - cFirstSnapshotID B))
                          (\<lambda>s. initSenderSnapshot (startTime r2) (extStartSN r2))
                          (senderSnapshots r2) of
                     None \<Rightarrow> None
                   | Some ss \<Rightarrow> Some (Inr (r2\<lparr>senderSnapshots := ss\<rparr>))))
      else Some (Inr r))"

text \<open>Lines 308-336: the start is lowered to a sequence number before it.\<close>

definition Sender_Update_adjustStart ::
  "('x RTPStatsSender, 'x) rtpStatsBase_methods \<Rightarrow> 'x RTPStatsSender \<Rightarrow> u64 \<Rightarrow>
   'x RTPStatsSender option" where
  "Sender_Update_adjustStart B r extSequenceNumber =
     (let r1 = r\<lparr>packetsLost := packetsLost r + (extStartSN r - extSequenceNumber)\<rparr>
      in case forPrefix (unat (nextSnapshotID r1 - cFirstSnapshotID B))
                (\<lambda>s. if snap_extStartSN s = extStartSN r1
                      then s\<lparr>snap_extStartSN := extSequenceNumber\<rparr> else s)
                (snapshots r1) of
           None \<Rightarrow> None
         | Some sn \<Rightarrow>
             (case forPrefix (unat (nextSenderSnapshotID r1 - cFirstSnapshotID B))
                     (\<lambda>s. if ss_extStartSN s = extStartSN r1
                           then (let s1 = s\<lparr>ss_extStartSN := extSequenceNumber\<rparr>
                                 in if ss_extLastRRSN s1 = extStartSN r1 - 1
                                    then s1\<lparr>ss_extLastRRSN := extSequenceNumber - 1\<rparr> else s1)
                           else s)
                     (senderSnapshots r1) of
                None \<Rightarrow> None
              | Some ss \<Rightarrow>
                  Some (r1\<lparr>snapshots := sn, senderSnapshots := ss,
                           extStartSN := extSequenceNumber\<rparr>)))"

definition Sender_Update_outOfOrder ::
  "('x RTPStatsSender, 'x) rtpStatsBase_methods \<Rightarrow> 'x RTPStatsSender \<Rightarrow> i64 \<Rightarrow> u64 \<Rightarrow> bool \<Rightarrow>
   i64 \<Rightarrow> i64 \<Rightarrow> u64 \<Rightarrow> ('x RTPStatsSender + bool \<times> 'x RTPStatsSender) option" where
  "Sender_Update_outOfOrder B r gapSN extSequenceNumber marker hdrSize payloadSize pktSize =
     (if payloadSize = 0 \<and> extSequenceNumber < extStartSN r then Some (Inl r)
      else
        case (if extSequenceNumber < extStartSN r
              then Sender_Update_adjustStart B r extSequenceNumber else Some r) of
          None \<Rightarrow> None
        | Some r1 \<Rightarrow>
            let r2 = (if gapSN \<noteq> 0 then r1\<lparr>packetsOutOfOrder := packetsOutOfOrder r1 + 1\<rparr> else r1);
                (isDuplicate, r3) =
                  (if \<not> isSnInfoLost r2 extSequenceNumber (extHighestSN r2) then
                     (True,
                      r2\<lparr>bytesDuplicate := bytesDuplicate r2 + pktSize,
                         headerBytesDuplicate := headerBytesDuplicate r2 + hdrSize,
                         packetsDuplicate := packetsDuplicate r2 + 1\<rparr>)
                   else
                     (False,
                      setSnInfo (r2\<lparr>packetsLost := packetsLost r2 - 1\<rparr>) extSequenceNumber
                        (extHighestSN r2) (ucast pktSize) (ucast hdrSize) (ucast payloadSize)
                        marker True));
                r4 = (if \<not> isDuplicate \<and> cSequenceNumberLargeJumpThreshold B \<le>s - gapSN
                      then r3\<lparr>s_largeJumpNegativeCount := s_largeJumpNegativeCount r3 + 1\<rparr>
                      else r3)
            in Some (Inr (isDuplicate, r4)))"

definition Sender_Update_inOrder ::
  "('x RTPStatsSender, 'x) rtpStatsBase_methods \<Rightarrow> 'x RTPStatsSender \<Rightarrow> i64 \<Rightarrow> u64 \<Rightarrow> u64 \<Rightarrow>
   bool \<Rightarrow> i64 \<Rightarrow> i64 \<Rightarrow> u64 \<Rightarrow> 'x RTPStatsSender" where
  "Sender_Update_inOrder B r gapSN extSequenceNumber extTimestamp marker hdrSize payloadSize pktSize =
     (let r1 = (if cSequenceNumberLargeJumpThreshold B \<le>s gapSN
                then r\<lparr>s_largeJumpCount := s_largeJumpCount r + 1\<rparr> else r);
          r2 = (if extTimestamp < extHighestTS r1
                then r1\<lparr>s_timeReversedCount := s_timeReversedCount r1 + 1\<rparr> else r1);
          r3 = r2\<lparr>aux := updateGapHistogram B r2 gapSN\<rparr>;
          r4 = clearSnInfos r3 (extHighestSN r3 + 1) extSequenceNumber;
          r5 = r4\<lparr>packetsLost := packetsLost r4 + (gapSN - 1)\<rparr>;
          r6 = setSnInfo r5 extSequenceNumber (extHighestSN r5) (ucast pktSize) (ucast hdrSize)
                 (ucast payloadSize) marker False
      in r6\<lparr>extHighestSN := extSequenceNumber\<rparr>)"

definition Sender_Update_timestamps ::
  "'x RTPStatsSender \<Rightarrow> i64 \<Rightarrow> u64 \<Rightarrow> i64 \<Rightarrow> 'x RTPStatsSender" where
  "Sender_Update_timestamps r packetTime extTimestamp payloadSize =
     (let r1 = (if extTimestamp < extStartTS r then r\<lparr>extStartTS := extTimestamp\<rparr> else r)
      in if extTimestamp > extHighestTS r1 then
           (let r2 = (if 0 <s payloadSize then r1\<lparr>highestTime := packetTime\<rparr> else r1)
            in r2\<lparr>extHighestTS := extTimestamp\<rparr>)
         else r1)"

definition Sender_Update_account ::
  "('x RTPStatsSender, 'x) rtpStatsBase_methods \<Rightarrow> 'x RTPStatsSender \<Rightarrow> bool \<Rightarrow> i64 \<Rightarrow> u64 \<Rightarrow>
   bool \<Rightarrow> i64 \<Rightarrow> i64 \<Rightarrow> u64 \<Rightarrow> 'x RTPStatsSender option" where
  "Sender_Update_account B r isDuplicate packetTime extTimestamp marker hdrSize payloadSize pktSize =
     (if \<not> isDuplicate then
        (if payloadSize = 0 then
           Some (r\<lparr>packetsPadding := packetsPadding r + 1,
                   bytesPadding := bytesPadding r + pktSize,
                   headerBytesPadding := headerBytesPadding r + hdrSize\<rparr>)
         else
           let r1 = r\<lparr>bytes := bytes r + pktSize, headerBytes := headerBytes r + hdrSize\<rparr>;
               r2 = (if marker then r1\<lparr>frames := frames r1 + 1\<rparr> else r1);
               (jitter, a) = updateJitter B r2 extTimestamp packetTime;
               r3 = r2\<lparr>aux := a\<rparr>
           in case forPrefix (unat (nextSenderSnapshotID r3 - cFirstSnapshotID B))
                     (\<lambda>s. if jitter > ss_maxJitterFeed s then s\<lparr>ss_maxJitterFeed := jitter\<rparr> else s)
                     (senderSnapshots r3) of
                None \<Rightarrow> None
              | Some ss \<Rightarrow> Some (r3\<lparr>senderSnapshots := ss\<rparr>))
      else Some r)"

definition RTPStatsSender_Update ::
  "('x RTPStatsSender, 'x) rtpStatsBase_methods \<Rightarrow> (nat \<Rightarrow> Time) \<Rightarrow> 'x RTPStatsSender \<Rightarrow>
   i64 \<Rightarrow> u64 \<Rightarrow> u64 \<Rightarrow> bool \<Rightarrow> i64 \<Rightarrow> i64 \<Rightarrow> i64 \<Rightarrow> 'x RTPStatsSender option" where
  "RTPStatsSender_Update B clk r packetTime extSequenceNumber extTimestamp marker hdrSize payloadSize paddingSize =
     (if \<not> Time_IsZero (endTime r) then Some r
      else
        case Sender_Update_init B clk r packetTime extSequenceNumber extTimestamp payloadSize of
          None \<Rightarrow> None
        | Some (Inl r0) \<Rightarrow> Some r0
        | Some (Inr r1) \<Rightarrow>
            let pktSize = hdrSize + payloadSize + paddingSize;
                gapSN = extSequenceNumber - extHighestSN r1
            in case (if gapSN \<le>s 0
                     then Sender_Update_outOfOrder B r1 gapSN extSequenceNumber marker hdrSize
                            payloadSize pktSize
                     else Some (Inr (False,
                            Sender_Update_inOrder B r1 gapSN extSequenceNumber extTimestamp marker
                              hdrSize payloadSize pktSize))) of
                 None \<Rightarrow> None
               | Some (Inl r0) \<Rightarrow> Some r0
               | Some (Inr (isDuplicate, r2)) \<Rightarrow>
                   Sender_Update_account B
                     (Sender_Update_timestamps r2 packetTime extTimestamp payloadSize)
                     isDuplicate packetTime extTimestamp marker hdrSize payloadSize pktSize)"

subsection \<open>Receiver reports arriving at the sender\<close>








subsection \<open>Sender reports generated by the sender\<close>

text \<open>
  \<open>GetRtcpSenderReport\<close> (rtpstats_sender.go, lines 609-696). The conversions between
  NTP timestamps and instants belong to \<open>mediatransportutil\<close> and are parameters
  (\<open>ntpTime\<close> for \<open>NtpTime.Time\<close>, \<open>toNtpTime\<close> for \<open>ToNtpTime\<close>).
\<close>

definition RTPStatsSender_GetRtcpSenderReport ::
  "('x RTPStatsSender, 'x) rtpStatsBase_methods \<Rightarrow> (u64 \<Rightarrow> Time) \<Rightarrow> (Time \<Rightarrow> u64) \<Rightarrow> (nat \<Rightarrow> Time) \<Rightarrow>
   'x RTPStatsSender \<Rightarrow> u32 \<Rightarrow> RTCPSenderReportData option \<Rightarrow> u64 \<Rightarrow> bool \<Rightarrow>
   SenderReport option \<times> 'x RTPStatsSender" where
  "RTPStatsSender_GetRtcpSenderReport B ntpTime toNtpTime clk r ssrc publisherSRData tsOffset passThrough =
     (case publisherSRData of
        None \<Rightarrow> (None, r)
      | Some p \<Rightarrow>
          if \<not> initialized r then (None, r)
          else
            let timeSincePublisherSRAdjusted = Time_Sub (clk 617) (AtAdjusted p);
                now = Time_Add (AtAdjusted p) timeSincePublisherSRAdjusted;
                nowNTP = (if passThrough then NTPTimestamp p else toNtpTime now);
                nowRTPExt =
                  (if passThrough then RTPTimestampExt p - tsOffset
                   else RTPTimestampExt p - tsOffset +
                        sdiv64 (timeSincePublisherSRAdjusted * ucast (clockRate r)) 1000000000);
                packetCount = ucast (getTotalPacketsPrimary B r (extStartSN r) (extHighestSN r) +
                                     packetsDuplicate r + packetsPadding r);
                octetCount = ucast (bytes r + bytesDuplicate r + bytesPadding r);
                srData = \<lparr>NTPTimestamp = nowNTP, RTPTimestamp = ucast nowRTPExt,
                          RTPTimestampExt = nowRTPExt, At = now, AtAdjusted = now,
                          Packets = packetCount, Octets = octetCount\<rparr>;
                r1 = (case srNewest r of
                        None \<Rightarrow> r
                      | Some n \<Rightarrow>
                          if nowRTPExt \<ge> RTPTimestampExt n \<and>
                             clockSkewed (clockRate r) (nowRTPExt - RTPTimestampExt n)
                               (Time_Sub (ntpTime nowNTP) (ntpTime (NTPTimestamp n)))
                          then r\<lparr>s_clockSkewCount := s_clockSkewCount r + 1\<rparr> else r)
            in if (case srNewest r1 of None \<Rightarrow> False | Some n \<Rightarrow> nowRTPExt < RTPTimestampExt n)
               then (None, r1)
               else
                 (Some \<lparr>sr_SSRC = ssrc, sr_NTPTime = nowNTP, sr_RTPTime = ucast nowRTPExt,
                        sr_PacketCount = packetCount, sr_OctetCount = octetCount\<rparr>,
                  r1\<lparr>srNewest := Some srData,
                     srFirst := (if srFirst r1 = None then Some srData else srFirst r1)\<rparr>))"

section \<open>An extender and a base for the concrete runs\<close>

text \<open>
  Modelled from the spec: the WrapAround extender (4.1), which is not among the source
  files. \<open>update\<close> initialises start and highest to the first value; afterwards it
  applies the signed wrap-aware delta within the narrow width to the highest value,
  which only advances. \<open>rollover\<close> is \<open>update\<close> when no cycle is forced, and otherwise
  adds the forced cycles to the cycle of the highest value. \<open>undoUpdate\<close> restores the
  highest value of before the update. The theorems below do not depend on this
  extender; it instantiates them at concrete inputs.
\<close>

record WrapAround =
  w_initialized :: bool
  w_extendedStart :: u64
  w_extendedHighest :: u64

definition WrapAround_update ::
  "WrapAround \<Rightarrow> 'n::len word \<Rightarrow> WrapAroundUpdateResult \<times> WrapAround" where
  "WrapAround_update w v =
     (if \<not> w_initialized w then
        (\<lparr>IsUnhandled = False, PreExtendedHighest = ucast v - 1, ExtendedVal = ucast v\<rparr>,
         \<lparr>w_initialized = True, w_extendedStart = ucast v, w_extendedHighest = ucast v\<rparr>)
      else
        let delta = sint (v - ucast (w_extendedHighest w));
            ext = w_extendedHighest w + word_of_int delta
        in (\<lparr>IsUnhandled = False, PreExtendedHighest = w_extendedHighest w, ExtendedVal = ext\<rparr>,
            if 0 < delta then w\<lparr>w_extendedHighest := ext\<rparr> else w))"

definition WrapAround_rollover ::
  "WrapAround \<Rightarrow> 'n::len word \<Rightarrow> i64 \<Rightarrow> WrapAroundUpdateResult \<times> WrapAround" where
  "WrapAround_rollover w v n =
     (if \<not> w_initialized w \<or> n \<le>s 0 then WrapAround_update w v
      else
        let ext = (w_extendedHighest w AND NOT (mask LENGTH('n))) + n * 2 ^ LENGTH('n) + ucast v
        in (\<lparr>IsUnhandled = False, PreExtendedHighest = w_extendedHighest w, ExtendedVal = ext\<rparr>,
            w\<lparr>w_extendedHighest := ext\<rparr>))"

definition WrapAround_undoUpdate :: "WrapAround \<Rightarrow> WrapAroundUpdateResult \<Rightarrow> WrapAround" where
  "WrapAround_undoUpdate w res = w\<lparr>w_extendedHighest := PreExtendedHighest res\<rparr>"

definition WrapAround_ops :: "('n::len word, WrapAround) WrapAround_methods" where
  "WrapAround_ops =
     \<lparr>wa_Update = WrapAround_update, wa_Rollover = WrapAround_rollover,
      wa_UndoUpdate = WrapAround_undoUpdate,
      wa_GetHighest = (\<lambda>w. ucast (w_extendedHighest w)),
      wa_GetExtendedStart = w_extendedStart,
      wa_GetExtendedHighest = w_extendedHighest\<rparr>"

text \<open>
  A base for the concrete runs: snapshot ids start at 1, there are \<open>2^16\<close> sequence
  numbers, a jump of 100 is large, and the state \<open>aux\<close> of the estimators is trivial.
\<close>

definition base_ops :: "('r, unit) rtpStatsBase_methods" where
  "base_ops =
     \<lparr>cFirstSnapshotID = 1, cNumSequenceNumbers = 65536, cSequenceNumberLargeJumpThreshold = 100,
      initSnapshot = (\<lambda>r t e. \<lparr>snap_extStartSN = e, snap_packetsLost = 0, snap_maxRtt = 0\<rparr>),
      updateGapHistogram = (\<lambda>r g. ()),
      updateJitter = (\<lambda>r e t. (0, ())),
      getJitter = (\<lambda>r. 0),
      getAndResetSnapshot = (\<lambda>r t i s h. None),
      maybeAdjustFirstPacketTime = (\<lambda>r sr off s. (0, ())),
      getTotalPacketsPrimary = (\<lambda>r s h. h - s + 1)\<rparr>"

text \<open>
  A receiver at 90 kHz that has taken the packets with sequence numbers 1 and 2
  (timestamps 3000 and 6000), and the same receiver after its stream has ended.
\<close>

definition receiver0 :: "(unit, WrapAround, WrapAround) RTPStatsReceiver" where
  "receiver0 =
     \<lparr>clockRate = 90000, endTime = 0, initialized = True, startTime = 1000,
      firstTime = 1000, highestTime = 2000, packetsLost = 0, bytes = 2024, headerBytes = 24,
      packetsPadding = 0, bytesPadding = 0, headerBytesPadding = 0,
      packetsDuplicate = 0, bytesDuplicate = 0, headerBytesDuplicate = 0,
      packetsOutOfOrder = 0, frames = 0, rtt = 0, maxRtt = 0, nextSnapshotID = 1,
      snapshots = [], srFirst = None, srNewest = None, aux = (),
      sequenceNumber = \<lparr>w_initialized = True, w_extendedStart = 1, w_extendedHighest = 2\<rparr>,
      tsRolloverThreshold = 23860929422222,
      timestamp = \<lparr>w_initialized = True, w_extendedStart = 3000, w_extendedHighest = 6000\<rparr>,
      history = Bitmap_Set (Bitmap_Set (\<lambda>i. False) 1) 2,
      propagationDelay = 0, longTermDeltaPropagationDelay = 0,
      propagationDelayDeltaHighCount = 0, propagationDelayDeltaHighStartTime = 0,
      propagationDelaySpike = 0, clockSkewCount = 0, clockSkewMediaPathCount = 0,
      outOfOrderSenderReportCount = 0, largeJumpCount = 0, largeJumpNegativeCount = 0,
      timeReversedCount = 0\<rparr>"

text \<open>
  A sender at 90 kHz that has sent one packet, sequence number 100 (1000 bytes of
  payload after 12 bytes of header), with one snapshot and one sender snapshot
  allocated; the same sender after 4900 more sequence numbers have gone by; and a
  report of a receiver that has seen sequence number 100.
\<close>

definition rr0 :: ReceptionReport where
  "rr0 = \<lparr>SSRC = 0, FractionLost = 0, TotalLost = 0, LastSequenceNumber = 0, Jitter = 0,
          LastSenderReport = 0, Delay = 0\<rparr>"

definition sender0 :: "unit RTPStatsSender" where
  "sender0 =
     \<lparr>clockRate = 90000, endTime = 0, initialized = True, startTime = 1000,
      firstTime = 1000, highestTime = 1000, packetsLost = 0, bytes = 1012, headerBytes = 12,
      packetsPadding = 0, bytesPadding = 0, headerBytesPadding = 0,
      packetsDuplicate = 0, bytesDuplicate = 0, headerBytesDuplicate = 0,
      packetsOutOfOrder = 0, frames = 0, rtt = 0, maxRtt = 0, nextSnapshotID = 2,
      snapshots = [\<lparr>snap_extStartSN = 100, snap_packetsLost = 0, snap_maxRtt = 0\<rparr>],
      srFirst = None, srNewest = None, aux = (),
      extStartSN = 100, extHighestSN = 100, extHighestSNFromRR = 0, lastRRTime = 0,
      lastRR = rr0, extStartTS = 3000, extHighestTS = 3000, packetsLostFromRR = 0,
      jitterFromRR = 0, maxJitterFromRR = 0,
      snInfos = (\<lambda>i. \<lparr>si_pktSize = 0, si_hdrSize = 0, si_flags = 0\<rparr>)
                  (100 := \<lparr>si_pktSize = 1012, si_hdrSize = 12, si_flags = 0\<rparr>),
      nextSenderSnapshotID = 2, senderSnapshots = [initSenderSnapshot 1000 100],
      s_clockSkewCount = 0, metadataCacheOverflowCount = 0, s_largeJumpNegativeCount = 0,
      s_largeJumpCount = 0, s_timeReversedCount = 0\<rparr>"

definition sender1 :: "unit RTPStatsSender" where
  "sender1 = sender0\<lparr>extHighestSN := 5000, extHighestTS := 14703000\<rparr>"




text \<open>
  For the sender reports. A clock that shows the same instant wherever it is read, and
  stand-ins for the conversions of \<open>mediatransportutil\<close> that read an NTP timestamp
  as a count of nanoseconds. \<open>srA\<close> is a sender report that arrives 20 ms after it was
  sent, \<open>receiverA\<close> the receiver that has recorded it as its first; \<open>srB\<close> arrives
  with a propagation delay of 40 ms and \<open>srC\<close> with one of 25 ms. \<open>receiverS\<close> is in
  a run of sharp increases: a long-term delta of 5 ms, one high report counted since
  the instant 1.5 s, and a spike estimate of 40 ms.
\<close>

definition clockAt :: "Time \<Rightarrow> nat \<Rightarrow> Time" where
  "clockAt t l = t"

definition ntp0 :: "u64 \<Rightarrow> Time" where
  "ntp0 n = int (unat n)"

definition toNtp0 :: "Time \<Rightarrow> u64" where
  "toNtp0 t = word_of_int t"

definition srA :: RTCPSenderReportData where
  "srA = \<lparr>NTPTimestamp = 1000000000, RTPTimestamp = 90000, RTPTimestampExt = 90000,
          At = 1020000000, AtAdjusted = 1020000000, Packets = 1, Octets = 1000\<rparr>"

definition receiverA :: "(unit, WrapAround, WrapAround) RTPStatsReceiver" where
  "receiverA = receiver0\<lparr>srFirst := Some srA, srNewest := Some srA, propagationDelay := 20000000\<rparr>"

definition srB :: RTCPSenderReportData where
  "srB = \<lparr>NTPTimestamp = 2000000000, RTPTimestamp = 180000, RTPTimestampExt = 180000,
          At = 2040000000, AtAdjusted = 0, Packets = 2, Octets = 2000\<rparr>"

definition srC :: RTCPSenderReportData where
  "srC = srB\<lparr>At := 2025000000\<rparr>"

definition receiverS :: "(unit, WrapAround, WrapAround) RTPStatsReceiver" where
  "receiverS = receiverA\<lparr>longTermDeltaPropagationDelay := 5000000,
       propagationDelayDeltaHighCount := 1, propagationDelayDeltaHighStartTime := 1500000000,
       propagationDelaySpike := 40000000\<rparr>"

text \<open>
  For the reception reports. A base whose \<open>getAndResetSnapshot\<close> returns a given pair
  of snapshots, and snapshots two sequence numbers apart: between \<open>snapThen\<close> and
  \<open>snapNow\<close> both packets were lost, between \<open>snapThen\<close> and \<open>snapNowHalf\<close> one of
  them.
\<close>

definition snapThen :: snapshot where
  "snapThen = \<lparr>snap_extStartSN = 1, snap_packetsLost = 0, snap_maxRtt = 0\<rparr>"

definition snapNow :: snapshot where
  "snapNow = \<lparr>snap_extStartSN = 3, snap_packetsLost = 2, snap_maxRtt = 0\<rparr>"

definition snapNowHalf :: snapshot where
  "snapNowHalf = \<lparr>snap_extStartSN = 3, snap_packetsLost = 1, snap_maxRtt = 0\<rparr>"

definition base_snap :: "snapshot \<Rightarrow> snapshot \<Rightarrow> ('r, unit) rtpStatsBase_methods" where
  "base_snap thn nw = base_ops\<lparr>getAndResetSnapshot := (\<lambda>r t i s h. Some (Some (thn, nw), [nw]))\<rparr>"

section \<open>Signed and unsigned readings of a 64-bit word\<close>

lemma sint64_eq:
  "sint (w::64 word) = (if uint w < 9223372036854775808 then uint w else uint w - 18446744073709551616)"
proof -
  have b: "0 \<le> uint w" "uint w < 18446744073709551616"
    using uint_lt2p [of w] by simp_all
  have s: "sint w = (uint w + 9223372036854775808) mod 18446744073709551616 - 9223372036854775808"
    by (simp add: sint_uint signed_take_bit_eq_take_bit_shift take_bit_eq_mod)
  show ?thesis
  proof (cases "uint w < 9223372036854775808")
    case True
    then have "(uint w + 9223372036854775808) mod 18446744073709551616 = uint w + 9223372036854775808"
      using b by (intro mod_pos_pos_trivial) simp_all
    with True s show ?thesis by simp
  next
    case False
    have "(uint w + 9223372036854775808) mod 18446744073709551616
          = (uint w + 9223372036854775808 - 18446744073709551616) mod 18446744073709551616"
      by (simp only: minus_mod_self2)
    also have "\<dots> = uint w + 9223372036854775808 - 18446744073709551616"
      using b False by (intro mod_pos_pos_trivial) simp_all
    finally show ?thesis using False s by simp
  qed
qed

lemma sless0_iff: "(w::64 word) <s 0 \<longleftrightarrow> 9223372036854775808 \<le> uint w"
  using uint_lt2p [of w] by (simp add: word_sless_alt sint64_eq)

lemma sle0_iff: "0 \<le>s (w::64 word) \<longleftrightarrow> uint w < 9223372036854775808"
  using uint_lt2p [of w] by (auto simp add: word_sle_eq sint64_eq)

section \<open>Receiver: classification of a packet\<close>

text \<open>
  In the steady state the extension phase writes the two extenders and nothing else.
\<close>

lemma Receiver_Update_extend_frame:
  assumes "initialized r"
    and "Receiver_Update_extend SN TS B clk r packetTime sn ts payloadSize = Some (Inr (resSN, resTS, r1))"
  shows "r1 = r\<lparr>sequenceNumber := sequenceNumber r1, timestamp := timestamp r1\<rparr>"
  using assms
  by (auto simp: Receiver_Update_extend_def Let_def split: prod.splits if_splits)

text \<open>
  The bitmap: a bit that was set reads as set, and \<open>ClearRange\<close> clears the bit of
  every number of its range.
\<close>

lemma Bitmap_IsSet_Set: "Bitmap_IsSet (Bitmap_Set b e) e"
  by (simp add: Bitmap_IsSet_def Bitmap_Set_def)

lemma Bitmap_slot_offset:
  "((a + k) mod 8192 + 8192 - a mod 8192) mod 8192 = k mod (8192::nat)"
proof -
  define d where "d = 8192 - a mod 8192"
  have d: "a mod 8192 + d = 8192"
    unfolding d_def using mod_less_divisor [of 8192 a] by linarith
  have "(a + k) mod 8192 + 8192 - a mod 8192 = (a + k) mod 8192 + d"
    using d by linarith
  moreover have "((a + k) mod 8192 + d) mod 8192 = (a + k + d) mod 8192"
    by (rule mod_add_left_eq)
  moreover have "a + k + d = k + 8192 + a div 8192 * 8192"
    using d div_mult_mod_eq [of a 8192] by linarith
  moreover have "(k + 8192 + a div 8192 * 8192) mod 8192 = k mod 8192"
    by simp
  ultimately show ?thesis by simp
qed

lemma Bitmap_ClearRange_clears:
  assumes "lo \<le> e" and "e \<le> hi"
  shows "\<not> Bitmap_IsSet (Bitmap_ClearRange b lo hi) e"
proof -
  have le: "lo \<le> hi" using assms by simp
  have k: "unat e = unat lo + unat (e - lo)"
    using assms(1) by (simp add: unat_sub word_le_nat_alt)
  have kle: "unat (e - lo) \<le> unat (hi - lo)"
    using assms by (simp add: unat_sub word_le_nat_alt)
  have "(Bitmap_slot e + cHistorySize - Bitmap_slot lo) mod cHistorySize = unat (e - lo) mod cHistorySize"
    unfolding Bitmap_slot_def cHistorySize_def k by (rule Bitmap_slot_offset)
  also have "\<dots> \<le> unat (e - lo)" by simp
  finally have "(Bitmap_slot e + cHistorySize - Bitmap_slot lo) mod cHistorySize \<le> unat (hi - lo)"
    using kle by simp
  moreover have "Bitmap_slot e < cHistorySize"
    by (simp add: Bitmap_slot_def cHistorySize_def)
  ultimately have "Bitmap_inRange lo hi (Bitmap_slot e)"
    using le by (simp add: Bitmap_inRange_def)
  then show ?thesis
    by (simp add: Bitmap_IsSet_def Bitmap_ClearRange_def)
qed

text \<open>
  Claim C1. Receiver \<open>Update\<close>, steady state, a packet whose gap
  \<open>gapSN = extSN - preExtendedHighest\<close> is at most 0. \<open>packetsOutOfOrder\<close> is incremented
  iff \<open>gapSN \<noteq> 0\<close>. If \<open>isInRange\<close> holds of the packet's extended sequence number and
  the highest one (which for such a packet is the highest of before the update, the
  value the code passes), the history bit of the packet is tested: if it is set the
  packet is a duplicate (\<open>packetsDuplicate\<close>, \<open>bytesDuplicate\<close> and
  \<open>headerBytesDuplicate\<close> grow, \<open>IsDuplicate\<close> is set, the loss count and the history
  stay), otherwise \<open>packetsLost\<close> is decremented by 1 and the bit is set. Outside the
  range neither happens. In every case \<open>IsOutOfOrder\<close> is set.
\<close>

theorem receiver_Update_out_of_order:
  assumes live: "Time_IsZero (endTime r)" and init: "initialized r"
    and ext: "Receiver_Update_extend SN TS B clk r packetTime sn ts payloadSize = Some (Inr (resSN, resTS, r1))"
    and gap: "ExtendedVal resSN - PreExtendedHighest resSN \<le>s 0"
  shows "\<exists>fs r'.
     RTPStatsReceiver_Update SN TS B clk r packetTime sn ts marker hdrSize payloadSize paddingSize = Some (fs, r') \<and>
     packetsOutOfOrder r' =
       (if ExtendedVal resSN - PreExtendedHighest resSN \<noteq> 0 then packetsOutOfOrder r + 1 else packetsOutOfOrder r) \<and>
     IsOutOfOrder fs \<and>
     (if isInRange (ExtendedVal resSN) (PreExtendedHighest resSN) then
        (if Bitmap_IsSet (history r) (ExtendedVal resSN) then
           IsDuplicate fs \<and>
           packetsDuplicate r' = packetsDuplicate r + 1 \<and>
           bytesDuplicate r' = bytesDuplicate r + (hdrSize + payloadSize + paddingSize) \<and>
           headerBytesDuplicate r' = headerBytesDuplicate r + hdrSize \<and>
           packetsLost r' = packetsLost r \<and> history r' = history r
         else
           \<not> IsDuplicate fs \<and>
           packetsLost r' = packetsLost r - 1 \<and>
           history r' = Bitmap_Set (history r) (ExtendedVal resSN) \<and>
           packetsDuplicate r' = packetsDuplicate r \<and> bytesDuplicate r' = bytesDuplicate r \<and>
           headerBytesDuplicate r' = headerBytesDuplicate r)
      else
        \<not> IsDuplicate fs \<and> packetsLost r' = packetsLost r \<and> history r' = history r \<and>
        packetsDuplicate r' = packetsDuplicate r \<and> bytesDuplicate r' = bytesDuplicate r \<and>
        headerBytesDuplicate r' = headerBytesDuplicate r)"
proof -
  have fr: "r1 = r\<lparr>sequenceNumber := sequenceNumber r1, timestamp := timestamp r1\<rparr>"
    using Receiver_Update_extend_frame [OF init ext] .
  have h: "history r1 = history r" "packetsOutOfOrder r1 = packetsOutOfOrder r"
    "packetsLost r1 = packetsLost r" "packetsDuplicate r1 = packetsDuplicate r"
    "bytesDuplicate r1 = bytesDuplicate r" "headerBytesDuplicate r1 = headerBytesDuplicate r"
    by (subst fr, simp)+
  show ?thesis
    using live gap
    by (simp add: RTPStatsReceiver_Update_def ext Receiver_Update_outOfOrder_def
        Receiver_Update_account_def Let_def flowState0_def h split: prod.splits)
qed

text \<open>
  The receiver that has taken sequence numbers 1 and 2 takes 2 again (the third packet
  of the spec's scenario 1, 2, 2, 3): the gap is 0, the packet is a duplicate, and the
  out-of-order counter stays at 0.
\<close>

lemma receiver0_extend_dup:
  "Receiver_Update_extend WrapAround_ops WrapAround_ops base_ops (\<lambda>l. 5000) receiver0 3000 2 6000 1000 =
   Some (Inr (\<lparr>IsUnhandled = False, PreExtendedHighest = 2, ExtendedVal = 2\<rparr>,
              \<lparr>IsUnhandled = False, PreExtendedHighest = 6000, ExtendedVal = 6000\<rparr>, receiver0))"
  by (simp add: Receiver_Update_extend_def receiver0_def WrapAround_ops_def WrapAround_update_def
      WrapAround_rollover_def getTSRolloverCount_def Let_def)

theorem receiver_Update_out_of_order_witness:
  "\<exists>fs r'. RTPStatsReceiver_Update WrapAround_ops WrapAround_ops base_ops (\<lambda>l. 5000) receiver0
              3000 2 6000 False 12 1000 0 = Some (fs, r') \<and>
     IsDuplicate fs \<and> IsOutOfOrder fs \<and> packetsDuplicate r' = 1 \<and> bytesDuplicate r' = 1012 \<and>
     packetsOutOfOrder r' = 0 \<and> packetsLost r' = 0"
proof -
  have a: "Time_IsZero (endTime receiver0)" "initialized receiver0"
    by (simp_all add: receiver0_def Time_IsZero_def)
  have g: "ExtendedVal \<lparr>IsUnhandled = False, PreExtendedHighest = 2, ExtendedVal = 2\<rparr>
           - PreExtendedHighest \<lparr>IsUnhandled = False, PreExtendedHighest = 2, ExtendedVal = 2\<rparr> \<le>s 0"
    by simp
  have s: "Bitmap_IsSet (history receiver0) 2" "isInRange 2 2"
    by (simp_all add: receiver0_def Bitmap_IsSet_def Bitmap_Set_def isInRange_def cHistorySize_def
        word_sless_alt word_sle_eq)
  have v: "packetsOutOfOrder receiver0 = 0" "packetsDuplicate receiver0 = 0"
    "bytesDuplicate receiver0 = 0" "packetsLost receiver0 = 0"
    by (simp_all add: receiver0_def)
  show ?thesis
    using receiver_Update_out_of_order [OF a receiver0_extend_dup g, of False 12 0] s v
    by auto
qed

text \<open>
  Claim C2. Receiver \<open>Update\<close>, steady state, a packet with
  \<open>gapSN = extSN - preExtendedHighest > 0\<close> (in order). The history is cleared over the
  range from \<open>preExtendedHighest + 1\<close> to \<open>extSN - 1\<close> and then the bit of \<open>extSN\<close> is
  set, \<open>packetsLost\<close> grows by \<open>gapSN - 1\<close>, and the flow state has \<open>HasLoss\<close> with
  \<open>LossStartInclusive = preExtendedHighest + 1\<close> and \<open>LossEndExclusive = extSN\<close> exactly
  when \<open>gapSN > 1\<close>; \<open>HasLoss\<close> is false when \<open>gapSN = 1\<close>. After the call the bit of
  \<open>extSN\<close> reads as set, and the bit of a number of the range reads as cleared unless
  it shares its slot with \<open>extSN\<close>.
\<close>

theorem receiver_Update_in_order:
  assumes live: "Time_IsZero (endTime r)" and init: "initialized r"
    and ext: "Receiver_Update_extend SN TS B clk r packetTime sn ts payloadSize = Some (Inr (resSN, resTS, r1))"
    and gap: "0 <s ExtendedVal resSN - PreExtendedHighest resSN"
  shows "\<exists>fs r'.
     RTPStatsReceiver_Update SN TS B clk r packetTime sn ts marker hdrSize payloadSize paddingSize = Some (fs, r') \<and>
     history r' = Bitmap_Set (Bitmap_ClearRange (history r) (PreExtendedHighest resSN + 1) (ExtendedVal resSN - 1))
                    (ExtendedVal resSN) \<and>
     Bitmap_IsSet (history r') (ExtendedVal resSN) \<and>
     (\<forall>e. PreExtendedHighest resSN + 1 \<le> e \<and> e \<le> ExtendedVal resSN - 1 \<and>
          Bitmap_slot e \<noteq> Bitmap_slot (ExtendedVal resSN) \<longrightarrow> \<not> Bitmap_IsSet (history r') e) \<and>
     packetsLost r' = packetsLost r + (ExtendedVal resSN - PreExtendedHighest resSN - 1) \<and>
     HasLoss fs = (1 <s ExtendedVal resSN - PreExtendedHighest resSN) \<and>
     (1 <s ExtendedVal resSN - PreExtendedHighest resSN \<longrightarrow>
        LossStartInclusive fs = PreExtendedHighest resSN + 1 \<and> LossEndExclusive fs = ExtendedVal resSN) \<and>
     (ExtendedVal resSN - PreExtendedHighest resSN = 1 \<longrightarrow> \<not> HasLoss fs)"
proof -
  have fr: "r1 = r\<lparr>sequenceNumber := sequenceNumber r1, timestamp := timestamp r1\<rparr>"
    using Receiver_Update_extend_frame [OF init ext] .
  have h: "history r1 = history r" "packetsLost r1 = packetsLost r"
    by (subst fr, simp)+
  have ng: "\<not> ExtendedVal resSN - PreExtendedHighest resSN \<le>s 0"
    using gap by (simp add: word_sle_eq word_sless_alt)
  have clr: "\<not> Bitmap_IsSet (Bitmap_Set (Bitmap_ClearRange b lo hi) x) e"
    if "lo \<le> e" "e \<le> hi" "Bitmap_slot e \<noteq> Bitmap_slot x" for b lo hi x e
    using Bitmap_ClearRange_clears [OF that(1,2), of b] that(3)
    by (simp add: Bitmap_IsSet_def Bitmap_Set_def)
  show ?thesis
    using live ng
    by (simp add: RTPStatsReceiver_Update_def ext Receiver_Update_inOrder_def
        Receiver_Update_account_def Let_def flowState0_def h Bitmap_IsSet_Set clr
        word_sless_alt split: prod.splits)
qed

text \<open>
  The receiver that has taken sequence numbers 1 and 2 takes 5: the gap is 3, two
  packets are counted as lost and the loss is reported as the range from 3 to 5.
\<close>

lemma receiver0_extend_gap:
  "Receiver_Update_extend WrapAround_ops WrapAround_ops base_ops (\<lambda>l. 5000) receiver0 3000 5 15000 1000 =
   Some (Inr (\<lparr>IsUnhandled = False, PreExtendedHighest = 2, ExtendedVal = 5\<rparr>,
              \<lparr>IsUnhandled = False, PreExtendedHighest = 6000, ExtendedVal = 15000\<rparr>,
              receiver0\<lparr>sequenceNumber := \<lparr>w_initialized = True, w_extendedStart = 1, w_extendedHighest = 5\<rparr>,
                        timestamp := \<lparr>w_initialized = True, w_extendedStart = 3000, w_extendedHighest = 15000\<rparr>\<rparr>))"
  by (simp add: Receiver_Update_extend_def receiver0_def WrapAround_ops_def WrapAround_update_def
      WrapAround_rollover_def getTSRolloverCount_def Let_def word_sless_alt word_sle_eq)

theorem receiver_Update_in_order_witness:
  "\<exists>fs r'. RTPStatsReceiver_Update WrapAround_ops WrapAround_ops base_ops (\<lambda>l. 5000) receiver0
              3000 5 15000 False 12 1000 0 = Some (fs, r') \<and>
     packetsLost r' = 2 \<and> HasLoss fs \<and> LossStartInclusive fs = 3 \<and> LossEndExclusive fs = 5 \<and>
     Bitmap_IsSet (history r') 5 \<and> \<not> Bitmap_IsSet (history r') 3 \<and> \<not> Bitmap_IsSet (history r') 4"
proof -
  have a: "Time_IsZero (endTime receiver0)" "initialized receiver0"
    by (simp_all add: receiver0_def Time_IsZero_def)
  have g: "0 <s ExtendedVal \<lparr>IsUnhandled = False, PreExtendedHighest = 2, ExtendedVal = 5\<rparr>
           - PreExtendedHighest \<lparr>IsUnhandled = False, PreExtendedHighest = 2, ExtendedVal = 5\<rparr>"
    by (simp add: word_sless_alt)
  have v: "packetsLost receiver0 = 0"
    by (simp add: receiver0_def)
  have s: "Bitmap_slot 3 \<noteq> Bitmap_slot 5" "Bitmap_slot 4 \<noteq> Bitmap_slot 5"
    by (simp_all add: Bitmap_slot_def cHistorySize_def)
  show ?thesis
    using receiver_Update_in_order [OF a receiver0_extend_gap g, of False 12 0] v s
    by (auto simp: word_sless_alt)
qed

section \<open>Sender: classification of a packet\<close>




text \<open>
  Claim C9. Once \<open>endTime\<close> has been set, every call of the receiver's \<open>Update\<close>
  returns a flow state with \<open>IsNotHandled\<close> and leaves the receiver as it was
  (counters, history and the state of both extenders), and every call of the sender's
  \<open>Update\<close> leaves the sender as it was.
\<close>

theorem Update_after_endTime:
  "(\<not> Time_IsZero (endTime r) \<longrightarrow>
      RTPStatsReceiver_Update SN TS B clk r packetTime sn ts marker hdrSize payloadSize paddingSize =
        Some (notHandled, r) \<and> IsNotHandled notHandled) \<and>
   (\<not> Time_IsZero (endTime s) \<longrightarrow>
      RTPStatsSender_Update B' clk' s packetTime' extSN extTS marker' hdrSize' payloadSize' paddingSize' = Some s)"
  by (simp add: RTPStatsReceiver_Update_def RTPStatsSender_Update_def notHandled_def flowState0_def)

text \<open>The receiver and the sender of the concrete runs, ended at the instant 4000.\<close>

theorem Update_after_endTime_witness:
  "RTPStatsReceiver_Update WrapAround_ops WrapAround_ops base_ops (\<lambda>l. 5000) (receiver0\<lparr>endTime := 4000\<rparr>)
     3000 3 9000 False 12 1000 0 = Some (notHandled, receiver0\<lparr>endTime := 4000\<rparr>) \<and>
   IsNotHandled notHandled \<and>
   RTPStatsSender_Update base_ops (\<lambda>l. 5000) (sender0\<lparr>endTime := 4000\<rparr>)
     3000 101 6000 False 12 1000 0 = Some (sender0\<lparr>endTime := 4000\<rparr>)"
  using Update_after_endTime [of "receiver0\<lparr>endTime := 4000\<rparr>" WrapAround_ops WrapAround_ops base_ops
      "\<lambda>l. 5000" 3000 3 9000 False 12 1000 0 "sender0\<lparr>endTime := 4000\<rparr>" base_ops "\<lambda>l. 5000"
      3000 101 6000 False 12 1000 0]
  by (simp add: Time_IsZero_def)


lemma Sender_Update_timestamps_frame:
  "packetsLost (Sender_Update_timestamps r t e p) = packetsLost r"
  "extStartSN (Sender_Update_timestamps r t e p) = extStartSN r"
  "snapshots (Sender_Update_timestamps r t e p) = snapshots r"
  "senderSnapshots (Sender_Update_timestamps r t e p) = senderSnapshots r"
  "nextSenderSnapshotID (Sender_Update_timestamps r t e p) = nextSenderSnapshotID r"
  "packetsDuplicate (Sender_Update_timestamps r t e p) = packetsDuplicate r"
  "bytesDuplicate (Sender_Update_timestamps r t e p) = bytesDuplicate r"
  "headerBytesDuplicate (Sender_Update_timestamps r t e p) = headerBytesDuplicate r"
  "snInfos (Sender_Update_timestamps r t e p) = snInfos r"
  by (simp_all add: Sender_Update_timestamps_def Let_def)

text \<open>
  Claim C10. On the sender's \<open>Update\<close>, an out-of-order packet (\<open>gapSN \<le> 0\<close>, at or
  after the start) whose sequence number is \<open>SN_INFO_SIZE = 4096\<close> or more behind the
  highest one is classified as a duplicate, because \<open>isSnInfoLost\<close> is false for a slot
  outside the window of the ring: \<open>packetsDuplicate\<close>, \<open>bytesDuplicate\<close> and
  \<open>headerBytesDuplicate\<close> grow, \<open>packetsLost\<close> is not decremented and the ring is not
  written.
\<close>

theorem sender_Update_far_behind:
  assumes live: "Time_IsZero (endTime r)" and init: "initialized r"
    and gap: "extSN - extHighestSN r \<le>s 0"
    and start: "extStartSN r \<le> extSN"
    and far: "4096 \<le> extHighestSN r - extSN"
  shows "\<exists>r'.
     RTPStatsSender_Update B clk r packetTime extSN extTS marker hdrSize payloadSize paddingSize = Some r' \<and>
     \<not> isSnInfoLost r extSN (extHighestSN r) \<and>
     packetsDuplicate r' = packetsDuplicate r + 1 \<and>
     bytesDuplicate r' = bytesDuplicate r + (hdrSize + payloadSize + paddingSize) \<and>
     headerBytesDuplicate r' = headerBytesDuplicate r + hdrSize \<and>
     packetsLost r' = packetsLost r \<and> snInfos r' = snInfos r"
proof -
  have slot: "getSnInfoOutOfOrderSlot extSN (extHighestSN r) = - 1"
  proof -
    have "cSnInfoSize \<le>s extHighestSN r - extSN \<or> extHighestSN r - extSN <s 0"
      using far uint_lt2p [of "extHighestSN r - extSN"]
      by (auto simp: cSnInfoSize_def word_sle_eq word_sless_alt word_le_def sint64_eq)
    then show ?thesis by (auto simp: getSnInfoOutOfOrderSlot_def Let_def)
  qed
  have nl: "\<not> isSnInfoLost r' extSN (extHighestSN r)" for r' :: "'a RTPStatsSender"
    by (simp add: isSnInfoLost_def slot word_sless_alt)
  have ns: "\<not> extSN < extStartSN r" using start by simp
  have ne: "extSN \<noteq> extHighestSN r" using far by auto
  show ?thesis
    using live init gap ns ne
    by (simp add: RTPStatsSender_Update_def Sender_Update_init_def Sender_Update_outOfOrder_def
        Sender_Update_account_def Let_def nl Sender_Update_timestamps_frame)
qed

text \<open>
  The sender whose highest sequence number is 5000 takes sequence number 200 again,
  4800 behind: a duplicate.
\<close>

theorem sender_Update_far_behind_witness:
  "\<exists>r'. RTPStatsSender_Update base_ops (\<lambda>l. 5000) sender1 9000 200 18000 False 12 1000 0 = Some r' \<and>
        packetsDuplicate r' = 1 \<and> bytesDuplicate r' = 1012 \<and> packetsLost r' = 0"
proof -
  have a: "Time_IsZero (endTime sender1)" "initialized sender1"
    "200 - extHighestSN sender1 \<le>s 0" "extStartSN sender1 \<le> 200" "4096 \<le> extHighestSN sender1 - 200"
    by (simp_all add: sender1_def sender0_def Time_IsZero_def word_sle_eq)
  have v: "packetsDuplicate sender1 = 0" "bytesDuplicate sender1 = 0" "packetsLost sender1 = 0"
    by (simp_all add: sender1_def sender0_def)
  show ?thesis
    using sender_Update_far_behind [OF a, of base_ops "\<lambda>l. 5000" 9000 18000 False 12 1000 0] v
    by auto
qed







section \<open>Sender: receiver reports\<close>












section \<open>Sender reports: the extended RTP timestamp\<close>

text \<open>
  A multiple of \<open>2^32\<close> added to a 32-bit timestamp does not change the low 32 bits.
\<close>

lemma cycles_mask: "(0xFFFFFFFF00000000 :: 64 word) = NOT (mask 32)"
  by (simp add: mask_eq_exp_minus_1 not_eq_complement)

lemma unat_cycles_and: "unat (x AND 0xFFFFFFFF00000000 :: 64 word) mod 4294967296 = 0"
proof -
  have "take_bit 32 (x AND NOT (mask 32)) = (0 :: 64 word)"
    by (rule bit_eqI) (auto simp: bit_simps)
  then have "take_bit 32 (unat (x AND NOT (mask 32))) = 0"
    by (metis unsigned_take_bit_eq unsigned_0)
  then show ?thesis
    by (simp add: cycles_mask take_bit_eq_mod)
qed

lemma unat_plus_cycle: "unat (c + 4294967296 :: 64 word) mod 4294967296 = unat c mod 4294967296"
proof -
  have "unat (c + 4294967296) = (unat c + 4294967296) mod 18446744073709551616"
    by (simp add: unat_word_ariths)
  moreover have "(unat c + 4294967296) mod 18446744073709551616 mod 4294967296 = (unat c + 4294967296) mod 4294967296"
    by (rule mod_mod_cancel) simp
  ultimately show ?thesis by simp
qed

lemma unat_minus_cycle: "unat (c - 4294967296 :: 64 word) mod 4294967296 = unat c mod 4294967296"
  using unat_plus_cycle [of "c - 4294967296"] by simp

lemma unat_ucast_up: "unat (ucast (t :: 32 word) :: 64 word) = unat t"
proof -
  have "unat t < 4294967296" using unsigned_less [of t, where ?'a = nat] by simp
  then have "unat t < 2 ^ 64" by simp
  then show ?thesis by (simp add: unsigned_ucast_eq take_bit_nat_eq_self)
qed

lemma unat_ext_mod:
  assumes "unat (c :: 64 word) mod 4294967296 = 0"
  shows "unat (ucast (t :: 32 word) + c) mod 4294967296 = unat t"
proof -
  have t: "unat t < 4294967296" using unsigned_less [of t, where ?'a = nat] by simp
  have "unat (ucast t + c) = (unat t + unat c) mod 18446744073709551616"
    by (simp add: unat_word_ariths unat_ucast_up)
  moreover have "(unat t + unat c) mod 18446744073709551616 mod 4294967296 = (unat t + unat c) mod 4294967296"
    by (rule mod_mod_cancel) simp
  moreover have "(unat t + unat c) mod 4294967296 = unat t mod 4294967296"
    using assms by (metis add.right_neutral mod_add_right_eq)
  ultimately show ?thesis using t by simp
qed

lemma unat_ucast_down: "unat (ucast (x :: 64 word) :: 32 word) = unat x mod 4294967296"
  by (simp add: unsigned_ucast_eq take_bit_eq_mod)

lemma getExtendedSenderReport_ext:
  "unat (RTPTimestampExt (getExtendedSenderReport ntpTime r srData)) mod 4294967296 = unat (RTPTimestamp srData)"
  "RTPTimestamp (getExtendedSenderReport ntpTime r srData) = RTPTimestamp srData"
  by (simp_all add: getExtendedSenderReport_def Let_def unat_ext_mod unat_cycles_and
      unat_plus_cycle unat_minus_cycle split: option.splits)

lemma adaptLongTerm_srNewest:
  "adaptLongTerm ntpTime scale r srData d = Some r' \<Longrightarrow> srNewest r' = srNewest r \<and> srFirst r' = srFirst r"
  by (auto simp: adaptLongTerm_def Let_def split: if_splits option.splits)

lemma updatePropagationDelayAndRecordSenderReport_srNewest:
  assumes "updatePropagationDelayAndRecordSenderReport ntpTime scale clk r srData = Some r'"
  shows "\<exists>a. srNewest r' = Some (srData\<lparr>AtAdjusted := a\<rparr>)"
  using assms
  by (auto simp: updatePropagationDelayAndRecordSenderReport_def Let_def split: option.splits)

lemma checkRTPClockSkewAgainstMediaPathForSenderReport_srNewest:
  "srNewest (checkRTPClockSkewAgainstMediaPathForSenderReport TS clk r sr) = srNewest r"
  by (simp add: checkRTPClockSkewAgainstMediaPathForSenderReport_def Let_def)

lemma SetRtcpSenderReportData_srNewest:
  assumes "RTPStatsReceiver_SetRtcpSenderReportData TS B ntpTime scale clk r srDataP = Some (True, r')"
  shows "\<exists>srData a. srDataP = Some srData \<and>
     srNewest r' = Some ((getExtendedSenderReport ntpTime r srData)\<lparr>AtAdjusted := a\<rparr>)"
  using assms
  by (auto simp: RTPStatsReceiver_SetRtcpSenderReportData_def Let_def
      checkRTPClockSkewAgainstMediaPathForSenderReport_srNewest
      dest!: updatePropagationDelayAndRecordSenderReport_srNewest
      split: if_splits option.splits prod.splits)

lemma GetRtcpSenderReport_srNewest:
  assumes "RTPStatsSender_GetRtcpSenderReport B ntpTime toNtpTime clk s ssrc pub tsOffset passThrough = (Some rep, s')"
  shows "\<exists>sr. srNewest s' = Some sr \<and> RTPTimestamp sr = ucast (RTPTimestampExt sr)"
  using assms
  by (auto simp: RTPStatsSender_GetRtcpSenderReport_def Let_def split: option.splits if_splits)

text \<open>
  Claim C7. For every sender report that is accepted and recorded as \<open>srNewest\<close>, on
  the receiver by \<open>SetRtcpSenderReportData\<close> (which returns true) and on the sender
  by a \<open>GetRtcpSenderReport\<close> that returns a report,
  \<open>srNewest.RTPTimestampExt mod 2^32 = srNewest.RTPTimestamp\<close>.
\<close>

theorem srNewest_RTPTimestampExt:
  "(RTPStatsReceiver_SetRtcpSenderReportData TS B ntpTime scale clk r srDataP = Some (True, r') \<longrightarrow>
      (\<exists>sr. srNewest r' = Some sr \<and>
            unat (RTPTimestampExt sr) mod 2 ^ 32 = unat (RTPTimestamp sr))) \<and>
   (RTPStatsSender_GetRtcpSenderReport B' ntpTime' toNtpTime clk' s ssrc pub tsOffset passThrough = (Some rep, s') \<longrightarrow>
      (\<exists>sr. srNewest s' = Some sr \<and>
            unat (RTPTimestampExt sr) mod 2 ^ 32 = unat (RTPTimestamp sr)))"
proof (intro conjI impI)
  assume "RTPStatsReceiver_SetRtcpSenderReportData TS B ntpTime scale clk r srDataP = Some (True, r')"
  then obtain srData a where
    "srNewest r' = Some ((getExtendedSenderReport ntpTime r srData)\<lparr>AtAdjusted := a\<rparr>)"
    using SetRtcpSenderReportData_srNewest by blast
  then show "\<exists>sr. srNewest r' = Some sr \<and> unat (RTPTimestampExt sr) mod 2 ^ 32 = unat (RTPTimestamp sr)"
    by (simp add: getExtendedSenderReport_ext)
next
  assume "RTPStatsSender_GetRtcpSenderReport B' ntpTime' toNtpTime clk' s ssrc pub tsOffset passThrough = (Some rep, s')"
  then obtain sr where "srNewest s' = Some sr" "RTPTimestamp sr = ucast (RTPTimestampExt sr)"
    using GetRtcpSenderReport_srNewest by blast
  then show "\<exists>sr. srNewest s' = Some sr \<and> unat (RTPTimestampExt sr) mod 2 ^ 32 = unat (RTPTimestamp sr)"
    by (simp add: unat_ucast_down)
qed

text \<open>
  The receiver takes its first sender report, and the sender makes a report from the
  same data of the publisher one second later: both record it, and both calls are
  instances of the theorem.
\<close>

lemma receiver0_SetRtcpSenderReportData:
  "\<exists>r'. RTPStatsReceiver_SetRtcpSenderReportData WrapAround_ops base_ops ntp0 scaleDuration
          (clockAt 1020000000) receiver0 (Some srA) = Some (True, r')"
  by (simp add: RTPStatsReceiver_SetRtcpSenderReportData_def checkOutOfOrderSenderReport_def
      checkRTPClockSkewForSenderReport_def updatePropagationDelayAndRecordSenderReport_def
      receiver0_def base_ops_def Let_def)

lemma sender0_GetRtcpSenderReport:
  "\<exists>rep s'. RTPStatsSender_GetRtcpSenderReport base_ops ntp0 toNtp0 (clockAt 2020000000) sender0 7
            (Some srA) 0 False = (Some rep, s')"
  by (simp add: RTPStatsSender_GetRtcpSenderReport_def sender0_def Let_def)

theorem srNewest_RTPTimestampExt_witness:
  "(\<exists>r' sr. RTPStatsReceiver_SetRtcpSenderReportData WrapAround_ops base_ops ntp0 scaleDuration
          (clockAt 1020000000) receiver0 (Some srA) = Some (True, r') \<and>
       srNewest r' = Some sr \<and> unat (RTPTimestampExt sr) mod 2 ^ 32 = unat (RTPTimestamp sr)) \<and>
   (\<exists>rep s' sr. RTPStatsSender_GetRtcpSenderReport base_ops ntp0 toNtp0 (clockAt 2020000000) sender0 7
            (Some srA) 0 False = (Some rep, s') \<and>
       srNewest s' = Some sr \<and> unat (RTPTimestampExt sr) mod 2 ^ 32 = unat (RTPTimestamp sr))"
proof -
  obtain r' where a: "RTPStatsReceiver_SetRtcpSenderReportData WrapAround_ops base_ops ntp0 scaleDuration
          (clockAt 1020000000) receiver0 (Some srA) = Some (True, r')"
    using receiver0_SetRtcpSenderReportData by blast
  obtain rep s' where b: "RTPStatsSender_GetRtcpSenderReport base_ops ntp0 toNtp0 (clockAt 2020000000) sender0 7
            (Some srA) 0 False = (Some rep, s')"
    using sender0_GetRtcpSenderReport by blast
  show ?thesis
    using srNewest_RTPTimestampExt [of WrapAround_ops base_ops ntp0 scaleDuration "clockAt 1020000000"
        receiver0 "Some srA" r' base_ops ntp0 toNtp0 "clockAt 2020000000" sender0 7 "Some srA" 0 False rep s']
      a b
    by blast
qed

section \<open>Receiver: the propagation delay\<close>

lemma adaptLongTerm_Some:
  "srNewest r \<noteq> None \<Longrightarrow> \<exists>r'. adaptLongTerm ntpTime scale r srData d = Some r'"
  by (auto simp: adaptLongTerm_def Let_def split: option.splits)

lemma adaptLongTerm_fields:
  assumes "adaptLongTerm ntpTime scale r srData d = Some r'"
  shows "propagationDelay r' = propagationDelay r"
    "propagationDelayDeltaHighCount r' = propagationDelayDeltaHighCount r"
    "propagationDelayDeltaHighStartTime r' = propagationDelayDeltaHighStartTime r"
    "propagationDelaySpike r' = propagationDelaySpike r"
  using assms
  by (auto simp: adaptLongTerm_def Let_def split: if_splits option.splits)

lemma adaptLongTerm_zero:
  assumes "longTermDeltaPropagationDelay r = 0" and "\<not> d <s 0"
  shows "\<exists>r'. adaptLongTerm ntpTime scale r srData d = Some r' \<and>
     longTermDeltaPropagationDelay r' =
       (if d <s cPropagationDelayDeltaLongTermAdaptationThreshold then d else 0)"
  using assms by (simp add: adaptLongTerm_def Let_def)

lemma resetDelta_fields:
  "propagationDelayDeltaHighCount (resetDelta r) = 0"
  "propagationDelayDeltaHighStartTime (resetDelta r) = 0"
  "propagationDelaySpike (resetDelta r) = 0"
  "propagationDelay (resetDelta r) = propagationDelay r"
  "longTermDeltaPropagationDelay (resetDelta r) = longTermDeltaPropagationDelay r"
  "srNewest (resetDelta r) = srNewest r"
  by (simp_all add: resetDelta_def)

lemma initPropagationDelay_fields:
  "propagationDelayDeltaHighCount (initPropagationDelay r pd) = 0"
  "propagationDelayDeltaHighStartTime (initPropagationDelay r pd) = 0"
  "propagationDelaySpike (initPropagationDelay r pd) = 0"
  "propagationDelay (initPropagationDelay r pd) = pd"
  "longTermDeltaPropagationDelay (initPropagationDelay r pd) = 0"
  "srNewest (initPropagationDelay r pd) = srNewest r"
  by (simp_all add: initPropagationDelay_def resetDelta_def)

lemma sharpIncrease_eq:
  "sharpIncrease scale clk r pd =
     (let r3 = r\<lparr>propagationDelayDeltaHighCount := spikeCount r,
                  propagationDelayDeltaHighStartTime := spikeStart clk r,
                  propagationDelaySpike := spikeValue scale r pd\<rparr>
      in if spikeCommitted clk r then initPropagationDelay r3 (spikeValue scale r pd) else r3)"
  by (auto simp: sharpIncrease_def spikeCount_def spikeStart_def spikeValue_def spikeCommitted_def Let_def)

text \<open>
  After a sender report was recorded the long-term delta is not negative (lines
  591-593), so that on the states the receiver reaches the test
  \<open>longTermDeltaPropagationDelay != 0\<close> of line 550 is the test that it is positive.
\<close>

lemma adaptLongTerm_nonneg:
  assumes "adaptLongTerm ntpTime scale r srData d = Some r'"
  shows "\<not> longTermDeltaPropagationDelay r' <s 0"
  using assms
  by (auto simp: adaptLongTerm_def Let_def word_sless_alt split: if_splits option.splits)

lemma updatePropagationDelay_longTerm_nonneg:
  assumes "updatePropagationDelayAndRecordSenderReport ntpTime scale clk r srData = Some r'"
  shows "\<not> longTermDeltaPropagationDelay r' <s 0"
proof (cases "srFirst r = None")
  case True
  then show ?thesis
    using assms
    by (auto simp: updatePropagationDelayAndRecordSenderReport_def Let_def initPropagationDelay_fields
        word_sless_alt)
next
  case False
  then show ?thesis
    using assms
    by (auto simp: updatePropagationDelayAndRecordSenderReport_def Let_def
        split: option.splits dest: adaptLongTerm_nonneg)
qed

text \<open>
  The whole step for a report after the first, in terms of the long-term step that
  ends it: when the test for a sharp increase fails, and when it holds.
\<close>

lemma updatePropagationDelay_not_sharp:
  assumes first: "srFirst r \<noteq> None"
    and ns: "\<not> sharpIncreaseCondition r (receivedPropagationDelay ntpTime srData)"
    and a: "adaptLongTerm ntpTime scale
        (if cPropagationDelayDeltaThresholdMin <s receivedPropagationDelay ntpTime srData - propagationDelay r
         then resetDelta r
         else (resetDelta r)\<lparr>propagationDelay := propagationDelay r +
                 scale (if propagationDelay r <s receivedPropagationDelay ntpTime srData
                        then cPropagationDelayRiseFactor else cPropagationDelayFallFactor)
                   (receivedPropagationDelay ntpTime srData - propagationDelay r)\<rparr>)
        srData (receivedPropagationDelay ntpTime srData - propagationDelay r) = Some r2"
  shows "updatePropagationDelayAndRecordSenderReport ntpTime scale clk r srData =
      Some (r2\<lparr>srFirst := srFirst r2,
               srNewest := Some (srData\<lparr>AtAdjusted := Time_Add (ntpTime (NTPTimestamp srData)) (propagationDelay r2)\<rparr>)\<rparr>)"
  using first ns a
  by (auto simp: updatePropagationDelayAndRecordSenderReport_def Let_def sharpIncreaseCondition_def
      receivedPropagationDelay_def resetDelta_fields)

lemma updatePropagationDelay_high_not_sharp:
  assumes first: "srFirst r \<noteq> None" and newest: "srNewest r \<noteq> None"
    and ns: "\<not> sharpIncreaseCondition r (receivedPropagationDelay ntpTime srData)"
    and high: "cPropagationDelayDeltaThresholdMin <s receivedPropagationDelay ntpTime srData - propagationDelay r"
  shows "map_option propagationDelay (updatePropagationDelayAndRecordSenderReport ntpTime scale clk r srData)
     = Some (propagationDelay r)"
proof -
  let ?d = "receivedPropagationDelay ntpTime srData - propagationDelay r"
  have n1: "srNewest (resetDelta r) \<noteq> None" using newest by (simp add: resetDelta_fields)
  obtain r2 where a: "adaptLongTerm ntpTime scale (resetDelta r) srData ?d = Some r2"
    using adaptLongTerm_Some [OF n1] by blast
  note f = adaptLongTerm_fields [OF a]
  have "updatePropagationDelayAndRecordSenderReport ntpTime scale clk r srData =
      Some (r2\<lparr>srFirst := srFirst r2,
               srNewest := Some (srData\<lparr>AtAdjusted := Time_Add (ntpTime (NTPTimestamp srData)) (propagationDelay r2)\<rparr>)\<rparr>)"
    using a high by (intro updatePropagationDelay_not_sharp [OF first ns]) simp
  then show ?thesis by (simp add: f resetDelta_fields)
qed

lemma sharpIncreaseCondition_step:
  "sharpIncreaseCondition r pd \<Longrightarrow>
   (if cPropagationDelayDeltaThresholdMin <s pd - propagationDelay r then
                       (if longTermDeltaPropagationDelay r \<noteq> 0 \<and>
                           longTermDeltaPropagationDelay r * cPropagationDelayDeltaThresholdMaxFactor
                             <s pd - propagationDelay r
                        then sharpIncrease scale clk r pd
                        else resetDelta r)
                     else X) = sharpIncrease scale clk r pd"
  by (simp add: sharpIncreaseCondition_def)

lemma updatePropagationDelay_sharp:
  assumes first: "srFirst r \<noteq> None"
    and sharp: "sharpIncreaseCondition r (receivedPropagationDelay ntpTime srData)"
    and a: "adaptLongTerm ntpTime scale (sharpIncrease scale clk r (receivedPropagationDelay ntpTime srData)) srData
        (receivedPropagationDelay ntpTime srData - propagationDelay r) = Some r2"
  shows "updatePropagationDelayAndRecordSenderReport ntpTime scale clk r srData =
      Some (r2\<lparr>srFirst := srFirst r2,
               srNewest := Some (srData\<lparr>AtAdjusted := Time_Add (ntpTime (NTPTimestamp srData)) (propagationDelay r2)\<rparr>)\<rparr>)"
  unfolding updatePropagationDelayAndRecordSenderReport_def Let_def
    receivedPropagationDelay_def [symmetric]
  apply (simp only: sharpIncreaseCondition_step [OF sharp] first if_False a option.case)
  done

text \<open>
  The long-term delta a call returns with when it commits a run of sharp increases: the
  commit sets it to 0 and the long-term step that ends the call restarts from there.
\<close>

lemma updatePropagationDelay_commit_longTerm:
  assumes first: "srFirst r \<noteq> None" and newest: "srNewest r \<noteq> None"
    and sharp: "sharpIncreaseCondition r (receivedPropagationDelay ntpTime srData)"
    and commit: "spikeCommitted clk r"
  shows "map_option longTermDeltaPropagationDelay
       (updatePropagationDelayAndRecordSenderReport ntpTime scale clk r srData) =
     Some (if receivedPropagationDelay ntpTime srData - propagationDelay r
              <s cPropagationDelayDeltaLongTermAdaptationThreshold
           then receivedPropagationDelay ntpTime srData - propagationDelay r else 0)"
proof -
  let ?pd = "receivedPropagationDelay ntpTime srData"
  let ?d = "?pd - propagationDelay r"
  let ?r1 = "sharpIncrease scale clk r ?pd"
  have pos: "\<not> ?d <s 0"
    using sharp by (simp add: sharpIncreaseCondition_def cPropagationDelayDeltaThresholdMin_def word_sless_alt)
  have z: "longTermDeltaPropagationDelay ?r1 = 0"
    using commit by (simp add: sharpIncrease_eq Let_def initPropagationDelay_fields)
  obtain r2 where a: "adaptLongTerm ntpTime scale ?r1 srData ?d = Some r2"
    and l: "longTermDeltaPropagationDelay r2 =
         (if ?d <s cPropagationDelayDeltaLongTermAdaptationThreshold then ?d else 0)"
    using adaptLongTerm_zero [OF z pos, of ntpTime scale srData] by blast
  show ?thesis
    unfolding updatePropagationDelay_sharp [OF first sharp a] by (simp add: l)
qed

text \<open>The delays the reports of the concrete runs arrive with.\<close>

lemma receiverA_srB:
  "receivedPropagationDelay ntp0 srB = 40000000"
  "receivedPropagationDelay ntp0 srC = 25000000"
  by (simp_all add: receivedPropagationDelay_def ntp0_def srB_def srC_def Time_Sub_def)

text \<open>
  Claim C4, as amended. For an accepted sender report after the first, when the test
  for a sharp increase does not hold (it is: the delta of the propagation delay exceeds
  10 ms, the long-term delta is not 0, and the delta exceeds twice the long-term
  delta), the delta tracking is reset. If moreover the delta is at most 10 ms,
  \<open>propagationDelay\<close> is updated by the asymmetric adaptation
  \<open>propagationDelay += alpha * (pd - propagationDelay)\<close> with \<open>alpha = 0.1\<close> when
  \<open>pd > propagationDelay\<close> and \<open>alpha = 0.9\<close> otherwise; if the delta exceeds 10 ms,
  \<open>propagationDelay\<close> keeps its value.
\<close>

theorem propagationDelay_not_sharp:
  assumes first: "srFirst r \<noteq> None" and newest: "srNewest r \<noteq> None"
    and ns: "\<not> sharpIncreaseCondition r (receivedPropagationDelay ntpTime srData)"
  shows "\<exists>r'.
     updatePropagationDelayAndRecordSenderReport ntpTime scale clk r srData = Some r' \<and>
     propagationDelayDeltaHighCount r' = 0 \<and>
     Time_IsZero (propagationDelayDeltaHighStartTime r') \<and>
     propagationDelaySpike r' = 0 \<and>
     propagationDelay r' =
       (let pd = receivedPropagationDelay ntpTime srData in
        if cPropagationDelayDeltaThresholdMin <s pd - propagationDelay r then propagationDelay r
        else propagationDelay r +
             scale (if propagationDelay r <s pd then cPropagationDelayRiseFactor
                    else cPropagationDelayFallFactor) (pd - propagationDelay r))"
proof -
  let ?pd = "receivedPropagationDelay ntpTime srData"
  let ?d = "?pd - propagationDelay r"
  let ?r1 = "if cPropagationDelayDeltaThresholdMin <s ?d then resetDelta r
             else (resetDelta r)\<lparr>propagationDelay := propagationDelay r +
                     scale (if propagationDelay r <s ?pd then cPropagationDelayRiseFactor
                            else cPropagationDelayFallFactor) ?d\<rparr>"
  have n1: "srNewest ?r1 \<noteq> None" using newest by (simp add: resetDelta_fields)
  obtain r2 where a: "adaptLongTerm ntpTime scale ?r1 srData ?d = Some r2"
    using adaptLongTerm_Some [OF n1] by blast
  note f = adaptLongTerm_fields [OF a]
  note u = updatePropagationDelay_not_sharp [OF first ns a]
  show ?thesis
    unfolding u by (simp add: f resetDelta_fields Time_IsZero_def Let_def)
qed

text \<open>
  Claim C4 as it is stated fails. The receiver whose propagation delay is 20 ms, with
  a long-term delta of 0, takes a report that arrives with a delay of 40 ms. The test
  for a sharp increase does not hold, as the long-term delta is 0; the delta of 20 ms
  exceeds 10 ms, so the source only resets the delta tracking (lines 567-569) and
  \<open>propagationDelay\<close> stays 20 ms, where the adaptation of the claim gives 22 ms.
\<close>

theorem propagationDelay_not_sharp_counterexample:
  "longTermDeltaPropagationDelay receiverA = 0 \<and>
   \<not> sharpIncreaseCondition receiverA (receivedPropagationDelay ntp0 srB) \<and>
   map_option propagationDelay
     (updatePropagationDelayAndRecordSenderReport ntp0 scaleDuration (clockAt 2040000000) receiverA srB)
     = Some 20000000 \<and>
   propagationDelay receiverA +
     scaleDuration cPropagationDelayRiseFactor
       (receivedPropagationDelay ntp0 srB - propagationDelay receiverA) = 22000000"
proof -
  have v: "srFirst receiverA \<noteq> None" "srNewest receiverA \<noteq> None"
    by (simp_all add: receiverA_def receiver0_def)
  have p: "propagationDelay receiverA = 20000000" "longTermDeltaPropagationDelay receiverA = 0"
    by (simp_all add: receiverA_def receiver0_def)
  have ns: "\<not> sharpIncreaseCondition receiverA (receivedPropagationDelay ntp0 srB)"
    by (simp add: sharpIncreaseCondition_def p)
  have h: "cPropagationDelayDeltaThresholdMin <s receivedPropagationDelay ntp0 srB - propagationDelay receiverA"
    by (simp add: receiverA_srB p cPropagationDelayDeltaThresholdMin_def word_sless_alt)
  have s: "scaleDuration cPropagationDelayRiseFactor 20000000 = 2000000"
    by (simp add: scaleDuration_def cPropagationDelayRiseFactor_def trunc_def)
  show ?thesis
    using updatePropagationDelay_high_not_sharp [OF v ns h, of scaleDuration "clockAt 2040000000"] ns
    by (simp add: p receiverA_srB s)
qed

text \<open>
  A report that arrives with a delay of 25 ms, 5 ms above the estimate: the estimate
  rises by a tenth of the difference.
\<close>

theorem propagationDelay_not_sharp_witness:
  "\<exists>r'. updatePropagationDelayAndRecordSenderReport ntp0 scaleDuration (clockAt 2025000000) receiverA srC
          = Some r' \<and>
        propagationDelayDeltaHighCount r' = 0 \<and>
        Time_IsZero (propagationDelayDeltaHighStartTime r') \<and>
        propagationDelaySpike r' = 0 \<and>
        propagationDelay r' = 20500000"
proof -
  have v: "srFirst receiverA \<noteq> None" "srNewest receiverA \<noteq> None"
    by (simp_all add: receiverA_def receiver0_def)
  have p: "propagationDelay receiverA = 20000000"
    by (simp add: receiverA_def receiver0_def)
  have ns: "\<not> sharpIncreaseCondition receiverA (receivedPropagationDelay ntp0 srC)"
    by (simp add: sharpIncreaseCondition_def receiverA_srB p cPropagationDelayDeltaThresholdMin_def
        word_sless_alt)
  show ?thesis
    using propagationDelay_not_sharp [OF v ns, of scaleDuration "clockAt 2025000000"]
    by (auto simp: receiverA_srB p Let_def cPropagationDelayDeltaThresholdMin_def word_sless_alt
        scaleDuration_def cPropagationDelayRiseFactor_def trunc_def)
qed

text \<open>
  Claim C5, as amended. For an accepted sender report after the first that satisfies the
  test for a sharp increase: the count of high reports is incremented, the start of the
  run is set if it was zero, and the spike estimate is seeded with the delay or moved
  half the way to it. Once the count has reached 2 and 10 s have passed since the start
  of the run, \<open>propagationDelay\<close> is re-seeded to the spike estimate and the count, the
  start and the spike estimate are reset; the spike branch sets the long-term delta to
  0 (\<open>sharpIncrease\<close>), and the long-term step that ends the same call (lines 580-593)
  restarts from that 0, so that the call returns with a long-term delta equal to the
  delta of this report when that is below 50 ms, and 0 otherwise. Before both
  thresholds are met \<open>propagationDelay\<close> keeps its value.
\<close>

theorem propagationDelay_sharp:
  assumes first: "srFirst r \<noteq> None" and newest: "srNewest r \<noteq> None"
    and sharp: "sharpIncreaseCondition r (receivedPropagationDelay ntpTime srData)"
  shows "\<exists>r'.
     updatePropagationDelayAndRecordSenderReport ntpTime scale clk r srData = Some r' \<and>
     (let pd = receivedPropagationDelay ntpTime srData in
      if spikeCommitted clk r then
        propagationDelay r' = spikeValue scale r pd \<and>
        propagationDelayDeltaHighCount r' = 0 \<and>
        Time_IsZero (propagationDelayDeltaHighStartTime r') \<and>
        propagationDelaySpike r' = 0 \<and>
        longTermDeltaPropagationDelay (sharpIncrease scale clk r pd) = 0 \<and>
        longTermDeltaPropagationDelay r' =
          (if pd - propagationDelay r <s cPropagationDelayDeltaLongTermAdaptationThreshold
           then pd - propagationDelay r else 0)
      else
        propagationDelay r' = propagationDelay r \<and>
        propagationDelayDeltaHighCount r' = spikeCount r \<and>
        propagationDelayDeltaHighStartTime r' = spikeStart clk r \<and>
        propagationDelaySpike r' = spikeValue scale r pd)"
proof -
  let ?pd = "receivedPropagationDelay ntpTime srData"
  let ?d = "?pd - propagationDelay r"
  let ?r1 = "sharpIncrease scale clk r ?pd"
  have pos: "\<not> ?d <s 0"
    using sharp by (simp add: sharpIncreaseCondition_def cPropagationDelayDeltaThresholdMin_def word_sless_alt)
  have n1: "srNewest ?r1 \<noteq> None"
    using newest by (simp add: sharpIncrease_eq Let_def initPropagationDelay_fields)
  obtain r2 where a: "adaptLongTerm ntpTime scale ?r1 srData ?d = Some r2"
    using adaptLongTerm_Some [OF n1] by blast
  note f = adaptLongTerm_fields [OF a]
  note u = updatePropagationDelay_sharp [OF first sharp a]
  have z: "longTermDeltaPropagationDelay ?r1 = 0" if c: "spikeCommitted clk r"
    using c by (simp add: sharpIncrease_eq Let_def initPropagationDelay_fields)
  have lt: "longTermDeltaPropagationDelay r2 =
          (if ?d <s cPropagationDelayDeltaLongTermAdaptationThreshold then ?d else 0)"
    if c: "spikeCommitted clk r"
  proof -
    obtain r3 where "adaptLongTerm ntpTime scale ?r1 srData ?d = Some r3"
      and "longTermDeltaPropagationDelay r3 =
         (if ?d <s cPropagationDelayDeltaLongTermAdaptationThreshold then ?d else 0)"
      using adaptLongTerm_zero [OF z [OF c] pos, of ntpTime scale srData] by blast
    then show ?thesis using a by simp
  qed
  show ?thesis
  proof (cases "spikeCommitted clk r")
    case True
    then show ?thesis
      unfolding u using lt [OF True] z [OF True]
      by (simp add: f sharpIncrease_eq initPropagationDelay_fields Time_IsZero_def Let_def)
  next
    case False
    then show ?thesis
      unfolding u
      by (simp add: f sharpIncrease_eq Let_def)
  qed
qed

text \<open>
  Claim C5 as it is stated fails. The receiver with a delay of 20 ms, in a run of
  sharp increases, takes a report that arrives with a delay of 40 ms, 10.5 s after the
  start of the run. The run is committed (line 565 sets the long-term delta to 0), and
  as the delta of 20 ms is below 50 ms, lines 580-582 of the same call set the long-term
  delta to 20 ms: after the report it is not zero.
\<close>

theorem propagationDelay_sharp_counterexample:
  "sharpIncreaseCondition receiverS (receivedPropagationDelay ntp0 srB) \<and>
   spikeCommitted (clockAt 12000000000) receiverS \<and>
   map_option longTermDeltaPropagationDelay
     (updatePropagationDelayAndRecordSenderReport ntp0 scaleDuration (clockAt 12000000000) receiverS srB)
     = Some 20000000"
proof -
  have v: "srFirst receiverS \<noteq> None" "srNewest receiverS \<noteq> None"
    by (simp_all add: receiverS_def receiverA_def receiver0_def)
  have p: "propagationDelay receiverS = 20000000"
    by (simp add: receiverS_def receiverA_def receiver0_def)
  have s: "sharpIncreaseCondition receiverS (receivedPropagationDelay ntp0 srB)"
    by (simp add: sharpIncreaseCondition_def receiverS_def receiverA_def receiver0_def receiverA_srB
      cPropagationDelayDeltaThresholdMin_def cPropagationDelayDeltaThresholdMaxFactor_def word_sless_alt)
  have c: "spikeCommitted (clockAt 12000000000) receiverS"
    by (simp add: spikeCommitted_def spikeCount_def spikeStart_def receiverS_def receiverA_def receiver0_def
      cPropagationDelayDeltaHighResetNumReports_def cPropagationDelayDeltaHighResetWait_def
      Time_IsZero_def Time_Sub_def clockAt_def word_sle_eq)
  show ?thesis
    using updatePropagationDelay_commit_longTerm [OF v s c, of scaleDuration] s c
    by (simp add: receiverA_srB p cPropagationDelayDeltaLongTermAdaptationThreshold_def word_sless_alt)
qed

text \<open>
  The receiver in a run of sharp increases takes a report that arrives with a delay of
  40 ms: 10.5 s after the start of the run the delay is re-seeded to 40 ms; 1.5 s after
  it, the delay stays 20 ms and the report is counted.
\<close>

theorem propagationDelay_sharp_witness:
  "(\<exists>r'. updatePropagationDelayAndRecordSenderReport ntp0 scaleDuration (clockAt 12000000000) receiverS srB
          = Some r' \<and>
        propagationDelay r' = 40000000 \<and> propagationDelayDeltaHighCount r' = 0 \<and>
        Time_IsZero (propagationDelayDeltaHighStartTime r') \<and> propagationDelaySpike r' = 0 \<and>
        longTermDeltaPropagationDelay
          (sharpIncrease scaleDuration (clockAt 12000000000) receiverS 40000000) = 0 \<and>
        longTermDeltaPropagationDelay r' = 20000000) \<and>
   (\<exists>r'. updatePropagationDelayAndRecordSenderReport ntp0 scaleDuration (clockAt 3000000000) receiverS srB
          = Some r' \<and>
        propagationDelay r' = 20000000 \<and> propagationDelayDeltaHighCount r' = 2 \<and>
        propagationDelayDeltaHighStartTime r' = 1500000000 \<and> propagationDelaySpike r' = 40000000)"
proof -
  have v: "srFirst receiverS \<noteq> None" "srNewest receiverS \<noteq> None"
    by (simp_all add: receiverS_def receiverA_def receiver0_def)
  have p: "propagationDelay receiverS = 20000000"
    by (simp add: receiverS_def receiverA_def receiver0_def)
  have s: "sharpIncreaseCondition receiverS (receivedPropagationDelay ntp0 srB)"
    by (simp add: sharpIncreaseCondition_def receiverS_def receiverA_def receiver0_def receiverA_srB
      cPropagationDelayDeltaThresholdMin_def cPropagationDelayDeltaThresholdMaxFactor_def word_sless_alt)
  have c: "spikeCommitted (clockAt 12000000000) receiverS"
    "\<not> spikeCommitted (clockAt 3000000000) receiverS"
    by (simp_all add: spikeCommitted_def spikeCount_def spikeStart_def receiverS_def receiverA_def receiver0_def
      cPropagationDelayDeltaHighResetNumReports_def cPropagationDelayDeltaHighResetWait_def
      Time_IsZero_def Time_Sub_def clockAt_def word_sle_eq)
  have e: "spikeValue scaleDuration receiverS 40000000 = 40000000"
    "spikeCount receiverS = 2" "spikeStart (clockAt 3000000000) receiverS = 1500000000"
    by (simp_all add: spikeValue_def spikeCount_def spikeStart_def scaleDuration_def receiverS_def
        receiverA_def receiver0_def trunc_def Time_IsZero_def cPropagationDelaySpikeAdaptationFactor_def)
  have "\<exists>r'. updatePropagationDelayAndRecordSenderReport ntp0 scaleDuration (clockAt 12000000000) receiverS srB
          = Some r' \<and>
        propagationDelay r' = 40000000 \<and> propagationDelayDeltaHighCount r' = 0 \<and>
        Time_IsZero (propagationDelayDeltaHighStartTime r') \<and> propagationDelaySpike r' = 0 \<and>
        longTermDeltaPropagationDelay
          (sharpIncrease scaleDuration (clockAt 12000000000) receiverS 40000000) = 0 \<and>
        longTermDeltaPropagationDelay r' = 20000000"
    using propagationDelay_sharp [OF v s, of scaleDuration "clockAt 12000000000"]
    by (auto simp: receiverA_srB p c e Let_def cPropagationDelayDeltaLongTermAdaptationThreshold_def
        word_sless_alt)
  moreover have "\<exists>r'. updatePropagationDelayAndRecordSenderReport ntp0 scaleDuration (clockAt 3000000000) receiverS srB
          = Some r' \<and>
        propagationDelay r' = 20000000 \<and> propagationDelayDeltaHighCount r' = 2 \<and>
        propagationDelayDeltaHighStartTime r' = 1500000000 \<and> propagationDelaySpike r' = 40000000"
    using propagationDelay_sharp [OF v s, of scaleDuration "clockAt 3000000000"]
    by (auto simp: receiverA_srB p c e Let_def)
  ultimately show ?thesis by blast
qed

section \<open>Receiver: the reception report\<close>

text \<open>
  With fewer packets lost than expected, the product of the loss rate and 256 is below
  256 and its conversion to \<open>uint8\<close> is its integer part.
\<close>

lemma trunc_scaled_quotient:
  "trunc (real m / real n * 256) = int (256 * m div n)"
proof -
  have "real m / real n * 256 = of_nat (256 * m) / of_nat n" by simp
  then have "\<lfloor>real m / real n * 256\<rfloor> = int (256 * m div n)"
    by (simp only: floor_divide_of_nat_eq)
  moreover have "0 \<le> real m / real n * 256" by simp
  ultimately show ?thesis by (simp add: trunc_def)
qed

lemma fracLostOf_below:
  assumes lt: "unat (packetsLostDelta thn nw) < unat e"
  shows "unat (fracLostOf thn nw e proxy) = max (256 * unat (packetsLostDelta thn nw) div unat e) (unat proxy)"
proof -
  let ?l = "unat (packetsLostDelta thn nw)"
  let ?k = "256 * ?l div unat e"
  have k: "?k < 256"
  proof -
    have "256 * ?l < 256 * unat e" using lt by simp
    then show ?thesis using lt by (simp add: less_mult_imp_div_less mult.commute)
  qed
  have f: "fracLostOf thn nw e proxy =
      (let fl = (float_to_word (real ?l / real (unat e) * 256) :: u8)
       in if proxy > fl then proxy else fl)"
    by (simp add: fracLostOf_def packetsLostDelta_def Let_def)
  have u: "unat (float_to_word (real ?l / real (unat e) * 256) :: u8) = ?k"
    unfolding float_to_word_def trunc_scaled_quotient
    using k by (simp add: unat_of_nat take_bit_nat_eq_self_iff flip: of_nat_mult)
  show ?thesis
    unfolding f Let_def
    by (simp add: u [symmetric] word_less_nat_alt max_def)
qed

text \<open>
  Claim C3, as amended. When \<open>getAndResetSnapshot\<close> returns a pair of snapshots with
  \<open>0 < packetsExpected \<le> cNumSequenceNumbers\<close> and the number of packets lost between
  them is below \<open>packetsExpected\<close>, \<open>GetRtcpReceptionReport\<close> returns a report whose
  \<open>FractionLost\<close> is the larger of \<open>floor (256 * packetsLost / packetsExpected)\<close> and
  \<open>proxyFracLost\<close>. The source does not clamp: nothing is stated for a loss of
  \<open>packetsExpected\<close> packets or more, where the product is at least 256.
\<close>

theorem receptionReport_FractionLost:
  assumes snap: "getAndResetSnapshot B r (clk 662) snapshotID
         (wa_GetExtendedStart SN (sequenceNumber r)) (wa_GetExtendedHighest SN (sequenceNumber r))
       = Some (Some (thn, nw), sn)"
    and pos: "snap_extStartSN nw - snap_extStartSN thn \<noteq> 0"
    and le: "snap_extStartSN nw - snap_extStartSN thn \<le> cNumSequenceNumbers B"
    and lt: "unat (packetsLostDelta thn nw) < unat (snap_extStartSN nw - snap_extStartSN thn)"
  shows "\<exists>rr r'.
     RTPStatsReceiver_GetRtcpReceptionReport SN B clk r ssrc proxyFracLost snapshotID = Some (Some rr, r') \<and>
     unat (FractionLost rr) =
       max (256 * unat (packetsLostDelta thn nw) div unat (snap_extStartSN nw - snap_extStartSN thn))
           (unat proxyFracLost)"
  using snap pos le
  by (auto simp: RTPStatsReceiver_GetRtcpReceptionReport_def Let_def fracLostOf_below [OF lt]
      split: option.splits prod.splits)

text \<open>
  Claim C3 as it is stated fails. Both of the two packets expected between the
  snapshots were lost: the loss rate is 1, the product is 256, and line 685 converts it
  to \<open>uint8\<close> with no clamp. The report carries \<open>FractionLost = 0\<close>, where the claim
  gives 255.
\<close>

theorem receptionReport_FractionLost_counterexample:
  "packetsLostDelta snapThen snapNow = 2 \<and>
   snap_extStartSN snapNow - snap_extStartSN snapThen = 2 \<and>
   map_option (map_option FractionLost \<circ> fst)
     (RTPStatsReceiver_GetRtcpReceptionReport WrapAround_ops (base_snap snapThen snapNow)
        (clockAt 3000000000) receiver0 7 0 1) = Some (Some 0)"
proof -
  show ?thesis
    by (simp add: RTPStatsReceiver_GetRtcpReceptionReport_def fracLostOf_def float_to_word_def trunc_def
      packetsLostDelta_def snapThen_def snapNow_def base_snap_def base_ops_def receiver0_def
      Let_def word_sless_alt)
qed

text \<open>One of the two packets expected was lost: \<open>FractionLost\<close> is 128.\<close>

theorem receptionReport_FractionLost_witness:
  "\<exists>rr r'. RTPStatsReceiver_GetRtcpReceptionReport WrapAround_ops (base_snap snapThen snapNowHalf)
        (clockAt 3000000000) receiver0 7 0 1 = Some (Some rr, r') \<and>
      unat (FractionLost rr) = 128"
proof -
  have v: "packetsLostDelta snapThen snapNowHalf = 1"
    "snap_extStartSN snapNowHalf - snap_extStartSN snapThen = 2"
    by (simp_all add: packetsLostDelta_def snapThen_def snapNowHalf_def word_sless_alt)
  have a: "getAndResetSnapshot (base_snap snapThen snapNowHalf) receiver0 (clockAt 3000000000 662) 1
         (wa_GetExtendedStart WrapAround_ops (sequenceNumber receiver0))
         (wa_GetExtendedHighest WrapAround_ops (sequenceNumber receiver0))
       = Some (Some (snapThen, snapNowHalf), [snapNowHalf])"
    by (simp add: base_snap_def)
  have b: "snap_extStartSN snapNowHalf - snap_extStartSN snapThen \<noteq> 0"
    "snap_extStartSN snapNowHalf - snap_extStartSN snapThen \<le> cNumSequenceNumbers (base_snap snapThen snapNowHalf)"
    "unat (packetsLostDelta snapThen snapNowHalf) < unat (snap_extStartSN snapNowHalf - snap_extStartSN snapThen)"
    by (simp_all add: v base_snap_def base_ops_def)
  show ?thesis
    using receptionReport_FractionLost [where clk = "clockAt 3000000000" and ssrc = 7
        and proxyFracLost = 0, OF a b]
    by (simp add: v)
qed

end
